theory Spec2Isabelle
  imports Complex_Main "HOL-Library.Stream"
begin

section \<open>Values shared by the whole script\<close>

text \<open>
  The script \<^verbatim>\<open>train_embedding.py\<close> works on NumPy arrays of floats. Vectors and
  matrices are lists of reals here (floating-point rounding is not modelled); a matrix
  is the list of its rows.
\<close>

type_synonym vec = "real list"
type_synonym matrix = "real list list"

text \<open>The Python exceptions that the modelled code can raise.\<close>

datatype py_error = ValueError | IndexError | TypeError

subsection \<open>NumPy's global random generator\<close>

text \<open>
  \<^verbatim>\<open>np.random\<close> is a process-wide generator. Its state is passed explicitly: the
  stream of raw outputs still to come. Each call below consumes one raw output.
  \<^verbatim>\<open>randint(low, high)\<close> returns an integer of \<open>[low, high)\<close> and raises ValueError
  when the range is empty; \<^verbatim>\<open>random_sample()\<close> returns a float of \<open>[0, 1)\<close> with 53
  random bits; \<^verbatim>\<open>uniform(low, high)\<close> is \<open>low + (high - low) * random_sample()\<close>.
\<close>

type_synonym rng = "nat stream"

definition randint :: "nat \<Rightarrow> nat \<Rightarrow> rng \<Rightarrow> py_error + (nat \<times> rng)" where
  "randint low high g =
     (if high \<le> low then Inl ValueError
      else Inr (low + shd g mod (high - low), stl g))"

definition random_sample :: "rng \<Rightarrow> real \<times> rng" where
  "random_sample g = (real (shd g mod 2 ^ 53) / 2 ^ 53, stl g)"

definition uniform :: "real \<Rightarrow> real \<Rightarrow> rng \<Rightarrow> real \<times> rng" where
  "uniform low high g = (let (u, g') = random_sample g in (low + (high - low) * u, g'))"

subsection \<open>Output and library calls\<close>

text \<open>
  A Python float as \<^verbatim>\<open>loss.item()\<close> returns it: a finite number, an infinity or NaN.
\<close>

datatype pyfloat = Finite real | PosInf | NegInf | NaN

fun isfinite :: "pyfloat \<Rightarrow> bool" where
  "isfinite (Finite x) = True"
| "isfinite PosInf = False"
| "isfinite NegInf = False"
| "isfinite NaN = False"

text \<open>A Python variable holds \<^verbatim>\<open>None\<close> or an object.\<close>

datatype 'a py = PyNone | Value 'a

text \<open>
  What the script prints, and the calls on the plotting, file and training libraries
  whose order matters, are recorded in a trace. The numbers a diagnostic line prints
  are not modelled, only that the line is printed, except for the loss values.
\<close>

datatype message =
    Banner
  | Generate_nodes nat
  | Average_degree
  | Connect_components
  | Start_training
  | Error_no_edges
  | Device
  | Epoch_loss nat nat pyfloat
  | Training_completed_final_loss pyfloat
  | Embedded_saved
  | Visualization_saved
  | Training_completed
  | Training_failed
  | Error_during_training py_error
  | Traceback

datatype event =
    Print message
  | Zero_grad
  | Backward
  | Optimizer_step
  | Savefig string
  | To_csv string

record world =
  np_random :: rng
  trace :: "event list"

definition print :: "message \<Rightarrow> world \<Rightarrow> world" where
  "print m w = w\<lparr>trace := trace w @ [Print m]\<rparr>"

definition emit :: "event \<Rightarrow> world \<Rightarrow> world" where
  "emit e w = w\<lparr>trace := trace w @ [e]\<rparr>"

section \<open>The network generator (\<^verbatim>\<open>generate_uav_network\<close>)\<close>

text \<open>\<^verbatim>\<open>np.random.rand(rows, cols)\<close>: a matrix of samples, drawn row by row.\<close>

fun rand_vec :: "nat \<Rightarrow> rng \<Rightarrow> vec \<times> rng" where
  "rand_vec 0 g = ([], g)"
| "rand_vec (Suc k) g =
     (let (u, g1) = random_sample g; (us, g2) = rand_vec k g1 in (u # us, g2))"

fun rand :: "nat \<Rightarrow> nat \<Rightarrow> rng \<Rightarrow> matrix \<times> rng" where
  "rand 0 cols g = ([], g)"
| "rand (Suc rows) cols g =
     (let (r, g1) = rand_vec cols g; (rs, g2) = rand rows cols g1 in (r # rs, g2))"

text \<open>Vector subtraction and \<^verbatim>\<open>np.linalg.norm\<close> (the 2-norm), over the reals.\<close>

definition vsub :: "vec \<Rightarrow> vec \<Rightarrow> vec" where
  "vsub p q = map2 (-) p q"

definition linalg_norm :: "vec \<Rightarrow> real" where
  "linalg_norm v = sqrt (sum_list (map (\<lambda>x. x ^ 2) v))"

definition communication_range :: real where
  "communication_range = 250"

text \<open>\<^verbatim>\<open>adjacency[i][j] = v\<close> on a matrix stored as a list of rows.\<close>

definition set_entry :: "matrix \<Rightarrow> nat \<Rightarrow> nat \<Rightarrow> real \<Rightarrow> matrix" where
  "set_entry a i j v = a[i := (a ! i)[j := v]]"

text \<open>
  Lines 40-48. \<open>link_if_close\<close> is the body of the inner loop. The inner loop runs \<open>j\<close> over \<^verbatim>\<open>range(i+1, num_nodes)\<close>, the outer
  loop \<open>i\<close> over \<^verbatim>\<open>range(num_nodes)\<close>; both index inside the arrays.
\<close>

definition link_if_close :: "matrix \<Rightarrow> nat \<Rightarrow> nat \<Rightarrow> matrix \<Rightarrow> matrix" where
  "link_if_close positions i j adjacency =
     (let dist = linalg_norm (vsub (positions ! i) (positions ! j))
      in if dist < communication_range
         then set_entry (set_entry adjacency i j 1) j i 1
         else adjacency)"

definition adjacency_inner :: "matrix \<Rightarrow> nat \<Rightarrow> nat \<Rightarrow> matrix \<Rightarrow> matrix" where
  "adjacency_inner positions num_nodes i adjacency =
     fold (link_if_close positions i) [Suc i..<num_nodes] adjacency"

definition build_adjacency :: "matrix \<Rightarrow> nat \<Rightarrow> matrix" where
  "build_adjacency positions num_nodes =
     fold (adjacency_inner positions num_nodes) [0..<num_nodes]
          (replicate num_nodes (replicate num_nodes 0))"

text \<open>Lines 51-55: three uniform draws for each node, in this order.\<close>

fun sample_features :: "nat \<Rightarrow> rng \<Rightarrow> matrix \<times> rng" where
  "sample_features 0 g = ([], g)"
| "sample_features (Suc k) g =
     (let (etx, g1) = uniform 0.5 2.0 g;
          (energy, g2) = uniform 0.3 1.0 g1;
          (queue, g3) = uniform 0.0 0.8 g2;
          (rest, g4) = sample_features k g3
      in ([etx, energy, queue] # rest, g4))"

text \<open>
  Lines 58-65: the NetworkX graph. Nodes carry their position and features, edges
  are the pairs \<open>i < j\<close> with \<^verbatim>\<open>adjacency[i][j] == 1\<close>, with weight 1.
\<close>

record nx_graph =
  nodes :: "(nat \<times> vec \<times> vec) list"
  edges :: "(nat \<times> nat \<times> real) list"

definition make_graph :: "nat \<Rightarrow> matrix \<Rightarrow> matrix \<Rightarrow> matrix \<Rightarrow> nx_graph" where
  "make_graph num_nodes positions adjacency features =
     \<lparr>nodes = map (\<lambda>i. (i, positions ! i, features ! i)) [0..<num_nodes],
      edges = concat (map (\<lambda>i. concat (map (\<lambda>j. if adjacency ! i ! j = 1 then [(i, j, 1)] else [])
                                          [Suc i..<num_nodes]))
                          [0..<num_nodes])\<rparr>"

definition generate_uav_network ::
  "nat \<Rightarrow> real \<Rightarrow> world \<Rightarrow> (matrix \<times> matrix \<times> matrix \<times> nx_graph) \<times> world" where
  "generate_uav_network num_nodes area_size w =
     (let w1 = print (Generate_nodes num_nodes) w;
          (r, g1) = rand num_nodes 3 (np_random w1);
          positions = map (\<lambda>row. map2 (*) row [area_size, area_size, 150]) r;
          adjacency = build_adjacency positions num_nodes;
          (features, g2) = sample_features num_nodes g1;
          G = make_graph num_nodes positions adjacency features;
          w2 = print Connect_components (print Average_degree (w1\<lparr>np_random := g2\<rparr>))
      in ((positions, adjacency, features, G), w2))"

section \<open>The feature normalizer (\<^verbatim>\<open>StandardScaler\<close>)\<close>

text \<open>
  Modelled from the spec: \<^verbatim>\<open>StandardScaler.fit_transform\<close> is scikit-learn's, not
  this script's (lines 100-103 only call it). Section 4.2 of the spec: for each column,
  the mean and the standard deviation over the rows, the result \<open>(x - mean) / std\<close>,
  and for a column of zero variance the standard deviation is taken as 1. The
  standard deviation is the population one, over the reals.
\<close>

definition column :: "matrix \<Rightarrow> nat \<Rightarrow> vec" where
  "column x c = map (\<lambda>row. row ! c) x"

definition mean :: "vec \<Rightarrow> real" where
  "mean xs = sum_list xs / real (length xs)"

definition std :: "vec \<Rightarrow> real" where
  "std xs = sqrt (mean (map (\<lambda>v. (v - mean xs) ^ 2) xs))"

definition scale_of :: "vec \<Rightarrow> real" where
  "scale_of xs = (if std xs = 0 then 1 else std xs)"

definition fit_transform :: "matrix \<Rightarrow> matrix" where
  "fit_transform x =
     map (\<lambda>row. map (\<lambda>c. (row ! c - mean (column x c)) / scale_of (column x c))
                    [0..<length row])
         x"

section \<open>The encoder (class \<^verbatim>\<open>GraphSAGE\<close>)\<close>

text \<open>
  The class is built from library layers (\<^verbatim>\<open>torch_geometric.nn.SAGEConv\<close>,
  \<^verbatim>\<open>F.relu\<close>, \<^verbatim>\<open>F.dropout\<close>). The library is a parameter of the model: a record of
  its operations, on tensors of type \<open>'x\<close>, layer parameters of type \<open>'c\<close> and a
  torch random generator of type \<open>'r\<close> (the generator is global in torch and passed
  explicitly here). \<open>nn_SAGEConv\<close> is the layer's constructor, \<open>nn_conv\<close> its
  application to node features and an edge list.
\<close>

record ('x, 'c, 'r) nn =
  nn_SAGEConv :: "nat \<Rightarrow> nat \<Rightarrow> 'r \<Rightarrow> 'c \<times> 'r"
  nn_conv :: "'c \<Rightarrow> 'x \<Rightarrow> (nat \<times> nat) list \<Rightarrow> 'x"
  F_relu :: "'x \<Rightarrow> 'x"
  F_dropout :: "'x \<Rightarrow> real \<Rightarrow> bool \<Rightarrow> 'r \<Rightarrow> 'x \<times> 'r"

text \<open>
  Lines 18-30. \<open>training\<close> is the flag of \<^verbatim>\<open>nn.Module\<close>: set at construction,
  switched by \<^verbatim>\<open>model.train()\<close> and \<^verbatim>\<open>model.eval()\<close>.
\<close>

record 'c graphsage =
  conv1 :: 'c
  conv2 :: 'c
  training :: bool

definition GraphSAGE_init ::
  "('x, 'c, 'r, 'z) nn_scheme \<Rightarrow> nat \<Rightarrow> nat \<Rightarrow> nat \<Rightarrow> 'r \<Rightarrow> 'c graphsage \<times> 'r" where
  "GraphSAGE_init lib in_channels hidden_channels out_channels r =
     (let (c1, r1) = nn_SAGEConv lib in_channels hidden_channels r;
          (c2, r2) = nn_SAGEConv lib hidden_channels out_channels r1
      in (\<lparr>conv1 = c1, conv2 = c2, training = True\<rparr>, r2))"

definition forward ::
  "('x, 'c, 'r, 'z) nn_scheme \<Rightarrow> 'c graphsage \<Rightarrow> 'x \<Rightarrow> (nat \<times> nat) list \<Rightarrow> 'r \<Rightarrow> 'x \<times> 'r" where
  "forward lib self x edge_index r =
     (let x1 = nn_conv lib (conv1 self) x edge_index;
          x2 = F_relu lib x1;
          (x3, r') = F_dropout lib x2 0.2 (training self) r;
          x4 = nn_conv lib (conv2 self) x3 edge_index
      in (x4, r'))"

definition train_mode :: "'c graphsage \<Rightarrow> 'c graphsage" where
  "train_mode self = self\<lparr>training := True\<rparr>"

definition eval_mode :: "'c graphsage \<Rightarrow> 'c graphsage" where
  "eval_mode self = self\<lparr>training := False\<rparr>"

subsection \<open>The library layers, over the reals\<close>

text \<open>
  Modelled from the spec: \<^verbatim>\<open>SAGEConv\<close>, \<^verbatim>\<open>F.relu\<close> and \<^verbatim>\<open>F.dropout\<close> are library
  code, not under the script's sources. Section 4.3 of the spec: a layer takes, for each
  node, the mean of the feature vectors of its direct neighbours, combines it with the
  node's own feature vector and applies a learned linear transform to the output
  width; the nonlinearity is the rectified-linear activation, elementwise; dropout, in
  training only, zeroes each activation independently with probability \<open>p\<close> and
  rescales the others by \<open>1 / (1 - p)\<close>, and is the identity at evaluation.

  A layer has a weight matrix and a bias for the neighbourhood mean and a weight
  matrix for the node's own features; the constructor reads them off the generator.
  The generator is a stream of reals: the parameter values at construction, uniform
  draws of \<open>[0, 1)\<close> for dropout, where a draw below \<open>p\<close> zeroes the activation.
  A node without neighbours has the zero vector as mean. An edge \<open>(j, i)\<close> makes \<open>j\<close> a
  neighbour of \<open>i\<close>.
\<close>

record sage_conv =
  lin_l_weight :: matrix
  lin_l_bias :: vec
  lin_r_weight :: matrix

fun take_matrix :: "nat \<Rightarrow> nat \<Rightarrow> real stream \<Rightarrow> matrix \<times> real stream" where
  "take_matrix 0 cols r = ([], r)"
| "take_matrix (Suc rows) cols r =
     (let (ws, r') = take_matrix rows cols (sdrop cols r) in (stake cols r # ws, r'))"

definition new_sage_conv :: "nat \<Rightarrow> nat \<Rightarrow> real stream \<Rightarrow> sage_conv \<times> real stream" where
  "new_sage_conv in_channels out_channels r =
     (let (wl, r1) = take_matrix out_channels in_channels r;
          b = stake out_channels r1;
          (wr, r2) = take_matrix out_channels in_channels (sdrop out_channels r1)
      in (\<lparr>lin_l_weight = wl, lin_l_bias = b, lin_r_weight = wr\<rparr>, r2))"

definition dot :: "vec \<Rightarrow> vec \<Rightarrow> real" where
  "dot u v = sum_list (map2 (*) u v)"

definition matvec :: "matrix \<Rightarrow> vec \<Rightarrow> vec" where
  "matvec w v = map (\<lambda>row. dot row v) w"

definition neighbours :: "(nat \<times> nat) list \<Rightarrow> nat \<Rightarrow> nat list" where
  "neighbours edge_index i = map fst (filter (\<lambda>(j, t). t = i) edge_index)"

definition mean_vectors :: "nat \<Rightarrow> vec list \<Rightarrow> vec" where
  "mean_vectors d vs =
     (if vs = [] then replicate d 0
      else map (\<lambda>k. sum_list (map (\<lambda>v. v ! k) vs) / real (length vs)) [0..<d])"

definition aggregate :: "matrix \<Rightarrow> (nat \<times> nat) list \<Rightarrow> nat \<Rightarrow> vec" where
  "aggregate x edge_index i =
     mean_vectors (length (x ! i)) (map (\<lambda>j. x ! j) (neighbours edge_index i))"

definition sage_conv_forward :: "sage_conv \<Rightarrow> matrix \<Rightarrow> (nat \<times> nat) list \<Rightarrow> matrix" where
  "sage_conv_forward c x edge_index =
     map (\<lambda>i. map2 (+) (map2 (+) (matvec (lin_l_weight c) (aggregate x edge_index i))
                                 (lin_l_bias c))
                       (matvec (lin_r_weight c) (x ! i)))
         [0..<length x]"

definition relu :: "matrix \<Rightarrow> matrix" where
  "relu x = map (map (max 0)) x"

definition dropout_entry :: "real \<Rightarrow> real \<Rightarrow> real \<Rightarrow> real" where
  "dropout_entry p u v = (if u < p then 0 else v / (1 - p))"

fun dropout_rows :: "real \<Rightarrow> matrix \<Rightarrow> real stream \<Rightarrow> matrix \<times> real stream" where
  "dropout_rows p [] r = ([], r)"
| "dropout_rows p (row # rows) r =
     (let (rest, r') = dropout_rows p rows (sdrop (length row) r)
      in (map2 (dropout_entry p) (stake (length row) r) row # rest, r'))"

definition dropout :: "matrix \<Rightarrow> real \<Rightarrow> bool \<Rightarrow> real stream \<Rightarrow> matrix \<times> real stream" where
  "dropout x p train r = (if train then dropout_rows p x r else (x, r))"

definition real_nn :: "(matrix, sage_conv, real stream) nn" where
  "real_nn = \<lparr>nn_SAGEConv = new_sage_conv, nn_conv = sage_conv_forward,
              F_relu = relu, F_dropout = dropout\<rparr>"

section \<open>The tensor library\<close>

text \<open>
  The training loop calls torch for every tensor operation, for the gradients and for
  the optimizer, and NumPy for the Gaussian biases. None of that is the script's code.
  The record of library operations is extended by the operations the loop uses; the
  model is about every library with these operations. \<open>torch_item\<close> reads a scalar
  tensor as a Python float, which can be an infinity or NaN. The gradients live in the
  layer parameters, as in torch: \<open>optim_zero_grad\<close> and \<open>torch_backward\<close> return the
  model with its gradients reset or filled in, \<open>optim_step\<close> the updated optimizer
  state and model.
\<close>

record ('x, 'c, 'r, 'o) torch = "('x, 'c, 'r) nn" +
  torch_tensor :: "matrix \<Rightarrow> 'x"
  torch_index :: "'x \<Rightarrow> nat list \<Rightarrow> 'x"
  torch_mul :: "'x \<Rightarrow> 'x \<Rightarrow> 'x"
  torch_sum_dim1 :: "'x \<Rightarrow> 'x"
  torch_sigmoid :: "'x \<Rightarrow> 'x"
  torch_log :: "'x \<Rightarrow> 'x"
  torch_mean :: "'x \<Rightarrow> 'x"
  torch_neg :: "'x \<Rightarrow> 'x"
  torch_sub :: "'x \<Rightarrow> 'x \<Rightarrow> 'x"
  torch_rsub :: "real \<Rightarrow> 'x \<Rightarrow> 'x"
  torch_item :: "'x \<Rightarrow> pyfloat"
  torch_numpy :: "'x \<Rightarrow> 'x"
  optim_Adam :: "'c graphsage \<Rightarrow> real \<Rightarrow> 'o"
  optim_zero_grad :: "'o \<Rightarrow> 'c graphsage \<Rightarrow> 'c graphsage"
  torch_backward :: "'x \<Rightarrow> 'c graphsage \<Rightarrow> 'c graphsage"
  optim_step :: "'o \<Rightarrow> 'c graphsage \<Rightarrow> 'o \<times> 'c graphsage"
  np_randn :: "nat \<Rightarrow> rng \<Rightarrow> vec \<times> rng"

section \<open>Edge list and negative sampling (\<^verbatim>\<open>train_embeddings\<close>)\<close>

text \<open>
  Lines 86-90: the directed edge list, one entry for each \<open>(i, j)\<close> with
  \<^verbatim>\<open>adjacency[i][j] == 1\<close>, in row-major order.
\<close>

definition edge_index_of :: "matrix \<Rightarrow> nat \<Rightarrow> (nat \<times> nat) list" where
  "edge_index_of adjacency num_nodes =
     concat (map (\<lambda>i. concat (map (\<lambda>j. if adjacency ! i ! j = 1 then [(i, j)] else [])
                                  [0..<num_nodes]))
                 [0..<num_nodes])"

text \<open>
  Lines 135-140: the rejection loop.
  \<^verbatim>\<open>
  neg_samples = []
  while len(neg_samples) < num_pos:
      i = np.random.randint(0, num_nodes)
      j = np.random.randint(0, num_nodes)
      if i != j and adjacency[i][j] == 0:
          neg_samples.append([i, j])
  \<close>
  The loop has no other exit, so it may run forever: the model is a partial function,
  and \<open>None\<close> means that the loop does not return.
\<close>

partial_function (option) neg_sampling_loop ::
  "matrix \<Rightarrow> nat \<Rightarrow> nat \<Rightarrow> (nat \<times> nat) list \<Rightarrow> rng
     \<Rightarrow> (py_error + ((nat \<times> nat) list \<times> rng)) option" where
  "neg_sampling_loop adjacency num_nodes num_pos neg_samples g =
     (if length neg_samples < num_pos then
        (case randint 0 num_nodes g of
           Inl e \<Rightarrow> Some (Inl e)
         | Inr (i, g1) \<Rightarrow>
            (case randint 0 num_nodes g1 of
               Inl e \<Rightarrow> Some (Inl e)
             | Inr (j, g2) \<Rightarrow>
                 if i \<noteq> j \<and> adjacency ! i ! j = 0
                 then neg_sampling_loop adjacency num_nodes num_pos (neg_samples @ [(i, j)]) g2
                 else neg_sampling_loop adjacency num_nodes num_pos neg_samples g2))
      else Some (Inr (neg_samples, g)))"

definition neg_sampling ::
  "matrix \<Rightarrow> nat \<Rightarrow> nat \<Rightarrow> rng \<Rightarrow> (py_error + ((nat \<times> nat) list \<times> rng)) option" where
  "neg_sampling adjacency num_nodes num_pos g =
     neg_sampling_loop adjacency num_nodes num_pos [] g"

section \<open>The training loop (\<^verbatim>\<open>train_embeddings\<close>)\<close>

text \<open>
  The state that the epochs change: the model, the optimizer, the recorded losses, the
  torch generator, and the world (NumPy's generator and the trace).
\<close>

record ('c, 'r, 'o) train_state =
  model :: "'c graphsage"
  optimizer :: 'o
  losses :: "pyfloat list"
  torch_random :: 'r
  env :: world

text \<open>
  Lines 145-159: the similarity of the pairs and the loss, as the script composes them.
\<close>

definition similarity :: "('x, 'c, 'r, 'o, 'z) torch_scheme \<Rightarrow> 'x \<Rightarrow> (nat \<times> nat) list \<Rightarrow> 'x" where
  "similarity lib embeddings samples =
     torch_sum_dim1 lib
       (torch_mul lib (torch_index lib embeddings (map fst samples))
                      (torch_index lib embeddings (map snd samples)))"

definition loss_of :: "('x, 'c, 'r, 'o, 'z) torch_scheme \<Rightarrow> 'x \<Rightarrow> 'x \<Rightarrow> 'x" where
  "loss_of lib pos_similarity neg_similarity =
     torch_sub lib
       (torch_neg lib (torch_mean lib (torch_log lib (torch_sigmoid lib pos_similarity))))
       (torch_mean lib (torch_log lib (torch_rsub lib 1 (torch_sigmoid lib neg_similarity))))"

text \<open>
  Lines 121-167: one epoch. \<open>epoch_finish\<close> is the part after the negative sampling
  (lines 142-167): once the loss is computed nothing looks at its value, and
  \<^verbatim>\<open>backward\<close>, \<^verbatim>\<open>step\<close> and the append follow unconditionally. The only call of
  an epoch that may fail to return is the negative sampling; an exception leaves with
  the world as it is at that point.
\<close>

definition epoch_finish ::
  "('x, 'c, 'r, 'o, 'z) torch_scheme \<Rightarrow> nat \<Rightarrow> nat \<Rightarrow> ('c, 'r, 'o) train_state
     \<Rightarrow> 'c graphsage \<Rightarrow> world \<Rightarrow> 'x \<Rightarrow> 'r \<Rightarrow> (nat \<times> nat) list \<Rightarrow> (nat \<times> nat) list
     \<Rightarrow> ('c, 'r, 'o) train_state" where
  "epoch_finish lib num_epochs epoch s m1 w1 embeddings r1 pos_samples neg_samples =
     (let pos_similarity = similarity lib embeddings pos_samples;
          neg_similarity = similarity lib embeddings neg_samples;
          loss = loss_of lib pos_similarity neg_similarity;
          m2 = torch_backward lib loss m1;
          w2 = emit Backward w1;
          (opt, m3) = optim_step lib (optimizer s) m2;
          w3 = emit Optimizer_step w2;
          w4 = (if (epoch + 1) mod 10 = 0
                then print (Epoch_loss (epoch + 1) num_epochs (torch_item lib loss)) w3
                else w3)
      in \<lparr>model = m3, optimizer = opt, losses = losses s @ [torch_item lib loss],
          torch_random = r1, env = w4\<rparr>)"

definition epoch_body ::
  "('x, 'c, 'r, 'o, 'z) torch_scheme \<Rightarrow> nat \<Rightarrow> nat \<Rightarrow> matrix \<Rightarrow> 'x \<Rightarrow> (nat \<times> nat) list
     \<Rightarrow> nat \<Rightarrow> ('c, 'r, 'o) train_state
     \<Rightarrow> (py_error \<times> world + ('c, 'r, 'o) train_state) option" where
  "epoch_body lib num_nodes num_epochs adjacency features edge_index epoch s =
     (let m1 = optim_zero_grad lib (optimizer s) (model s);
          w1 = emit Zero_grad (env s);
          (embeddings, r1) = forward lib m1 features edge_index (torch_random s);
          pos_samples = edge_index;
          num_pos = length pos_samples
      in case neg_sampling adjacency num_nodes num_pos (np_random w1) of
           None \<Rightarrow> None
         | Some (Inl e) \<Rightarrow> Some (Inl (e, w1))
         | Some (Inr (neg_samples, g)) \<Rightarrow>
             Some (Inr (epoch_finish lib num_epochs epoch s m1 (w1\<lparr>np_random := g\<rparr>)
                          embeddings r1 pos_samples neg_samples)))"

text \<open>Line 120: \<^verbatim>\<open>for epoch in range(num_epochs)\<close>.\<close>

fun run_epochs ::
  "('x, 'c, 'r, 'o, 'z) torch_scheme \<Rightarrow> nat \<Rightarrow> nat \<Rightarrow> matrix \<Rightarrow> 'x \<Rightarrow> (nat \<times> nat) list
     \<Rightarrow> nat list \<Rightarrow> ('c, 'r, 'o) train_state
     \<Rightarrow> (py_error \<times> world + ('c, 'r, 'o) train_state) option" where
  "run_epochs lib num_nodes num_epochs adjacency features edge_index [] s = Some (Inr s)"
| "run_epochs lib num_nodes num_epochs adjacency features edge_index (epoch # rest) s =
     (case epoch_body lib num_nodes num_epochs adjacency features edge_index epoch s of
        None \<Rightarrow> None
      | Some (Inl ew) \<Rightarrow> Some (Inl ew)
      | Some (Inr s') \<Rightarrow> run_epochs lib num_nodes num_epochs adjacency features edge_index rest s')"

text \<open>
  Lines 169-189, after the last epoch: the forward pass at evaluation, the biases, the
  report of the last loss (\<^verbatim>\<open>losses[-1]\<close> raises IndexError on an empty list), the
  loss plot and the triple returned. The result is the exception raised or the value
  returned, with the torch generator and the world after the call.
\<close>

definition after_training ::
  "('x, 'c, 'r, 'o, 'z) torch_scheme \<Rightarrow> nat \<Rightarrow> 'x \<Rightarrow> (nat \<times> nat) list \<Rightarrow> nx_graph
     \<Rightarrow> ('c, 'r, 'o) train_state
     \<Rightarrow> (py_error + ('x py \<times> vec \<times> nx_graph) py) \<times> 'r \<times> world" where
  "after_training lib num_nodes features edge_index G s =
     (let (final, r2) = forward lib (eval_mode (model s)) features edge_index (torch_random s);
          final_embeddings = torch_numpy lib final;
          (normal, g) = np_randn lib num_nodes (np_random (env s));
          biases = map (\<lambda>b. b * 0.1) normal;
          w4 = (env s)\<lparr>np_random := g\<rparr>
      in if losses s = [] then (Inl IndexError, r2, w4)
         else
          (let w5 = print (Training_completed_final_loss (last (losses s))) w4;
               w6 = emit (Savefig ''training_loss.png'') w5
           in (Inr (Value (Value final_embeddings, biases, G)), r2, w6)))"

text \<open>
  Lines 72-189. The result is \<open>None\<close> when the call does not return. The value
  returned is \<^verbatim>\<open>None\<close> (line 94) or the triple of line 189. The conversions of lines
  96-97 and 101-103 between lists, arrays and tensors are kept as the one conversion
  \<open>torch_tensor\<close> of the normalized features; moving to the device changes nothing.
\<close>

definition train_embeddings ::
  "('x, 'c, 'r, 'o, 'z) torch_scheme \<Rightarrow> nat \<Rightarrow> nat \<Rightarrow> 'r \<Rightarrow> world
     \<Rightarrow> ((py_error + ('x py \<times> vec \<times> nx_graph) py) \<times> 'r \<times> world) option" where
  "train_embeddings lib num_nodes num_epochs r w =
     (let w1 = print Start_training w;
          input_dim = 3;
          hidden_dim = 32;
          output_dim = 16;
          learning_rate = 0.01;
          ((positions, adjacency, features, G), w2) = generate_uav_network num_nodes 1000 w1;
          edge_index = edge_index_of adjacency num_nodes
      in if length edge_index = 0
         then Some (Inr PyNone, r, print Error_no_edges w2)
         else
          (let features = torch_tensor lib (fit_transform features);
               w3 = print Device w2;
               (model0, r1) = GraphSAGE_init lib input_dim hidden_dim output_dim r;
               optimizer0 = optim_Adam lib model0 learning_rate;
               s0 = \<lparr>model = train_mode model0, optimizer = optimizer0, losses = [],
                     torch_random = r1, env = w3\<rparr>
           in case run_epochs lib num_nodes num_epochs adjacency features edge_index
                     [0..<num_epochs] s0 of
                None \<Rightarrow> None
              | Some (Inl (e, we)) \<Rightarrow> Some (Inl e, r1, we)
              | Some (Inr s) \<Rightarrow>
                  Some (after_training lib num_nodes features edge_index G s)))"

section \<open>The program (\<^verbatim>\<open>__main__\<close>)\<close>

text \<open>
  Lines 191-249, \<^verbatim>\<open>save_embeddings\<close> and \<^verbatim>\<open>visualize_embeddings\<close>: the file
  formats and the plot are not modelled, only that the table and the picture are
  written and reported.
\<close>

definition save_embeddings :: "'x \<Rightarrow> vec \<Rightarrow> world \<Rightarrow> world" where
  "save_embeddings embeddings biases w =
     print Embedded_saved (emit (To_csv ''outputs/emb_16.csv'') w)"

definition visualize_embeddings :: "'x \<Rightarrow> nx_graph \<Rightarrow> world \<Rightarrow> world" where
  "visualize_embeddings embeddings G w =
     print Visualization_saved (emit (Savefig ''outputs/embedding_visualization.png'') w)"

text \<open>
  Lines 251-283. \<open>g\<close> and \<open>r\<close> are the states of NumPy's and torch's generators after
  the two seeding calls. \<open>program\<close> is the block with its two training parameters
  open; the script fixes them to 30 nodes and 50 epochs. The script unpacks the result
  of \<^verbatim>\<open>train_embeddings\<close> into three names: on \<^verbatim>\<open>None\<close> that raises TypeError.
  Every exception of the \<^verbatim>\<open>try\<close> block is caught and reported. The result is the
  final world, or \<open>None\<close> when the program does not return.
\<close>

definition handler :: "py_error \<Rightarrow> world \<Rightarrow> world" where
  "handler e w = print Traceback (print (Error_during_training e) w)"

definition program ::
  "('x, 'c, 'r, 'o, 'z) torch_scheme \<Rightarrow> nat \<Rightarrow> nat \<Rightarrow> rng \<Rightarrow> 'r \<Rightarrow> world option" where
  "program lib num_nodes num_epochs g r =
     (let w0 = print Banner \<lparr>np_random = g, trace = []\<rparr>
      in case train_embeddings lib num_nodes num_epochs r w0 of
           None \<Rightarrow> None
         | Some (Inl e, r', w1) \<Rightarrow> Some (handler e w1)
         | Some (Inr PyNone, r', w1) \<Rightarrow> Some (handler TypeError w1)
         | Some (Inr (Value (embeddings, biases, G)), r', w1) \<Rightarrow>
            (case embeddings of
               Value e \<Rightarrow>
                 Some (print Training_completed
                        (visualize_embeddings e G (save_embeddings e biases w1)))
             | PyNone \<Rightarrow> Some (print Training_failed w1)))"

definition main :: "('x, 'c, 'r, 'o, 'z) torch_scheme \<Rightarrow> rng \<Rightarrow> 'r \<Rightarrow> world option" where
  "main lib g r = program lib 30 50 g r"

text \<open>
  Bookkeeping for the proofs: whether the next two raw outputs give an accepted pair,
  and how many of the next \<open>k\<close> rounds of the loop accept their pair.
\<close>

definition accepts :: "matrix \<Rightarrow> nat \<Rightarrow> rng \<Rightarrow> bool" where
  "accepts adjacency num_nodes g =
     (let i = shd g mod num_nodes; j = shd (stl g) mod num_nodes
      in i \<noteq> j \<and> adjacency ! i ! j = 0)"

fun accepted :: "matrix \<Rightarrow> nat \<Rightarrow> nat \<Rightarrow> rng \<Rightarrow> nat" where
  "accepted adjacency num_nodes 0 g = 0"
| "accepted adjacency num_nodes (Suc k) g =
     (if accepts adjacency num_nodes g then 1 else 0)
       + accepted adjacency num_nodes k (stl (stl g))"

text \<open>
  What a returning run of the loop guarantees, for the proofs: the result is a list of
  pairs and never an error, enough rounds accepted their pair, the list has grown to
  \<open>num_pos\<close> entries, and every entry was either there from the start or is an
  accepted pair.
\<close>

definition loop_post :: "matrix \<Rightarrow> nat \<Rightarrow> nat \<Rightarrow> (nat \<times> nat) list \<Rightarrow> rng
     \<Rightarrow> (py_error + ((nat \<times> nat) list \<times> rng)) \<Rightarrow> bool" where
  "loop_post adj n np acc g r =
     (0 < n \<longrightarrow>
       (\<exists>ps g'. r = Inr (ps, g')
          \<and> (\<exists>k. np \<le> length acc + accepted adj n k g)
          \<and> (length acc \<le> np \<longrightarrow> length ps = np)
          \<and> (\<forall>(i, j) \<in> set ps. (i, j) \<in> set acc \<or> (i \<noteq> j \<and> adj ! i ! j = 0 \<and> i < n \<and> j < n))))"

text \<open>
  For the proofs about the generator: a matrix is \<open>n \<times> n\<close>; the test of line 46 on
  the nodes \<open>i\<close> and \<open>j\<close>; and the Euclidean distance of two points of 3D space,
  written out on the three coordinates.
\<close>

definition square :: "nat \<Rightarrow> matrix \<Rightarrow> bool" where
  "square n a = (length a = n \<and> (\<forall>i<n. length (a ! i) = n))"

definition close :: "matrix \<Rightarrow> nat \<Rightarrow> nat \<Rightarrow> bool" where
  "close positions i j =
     (linalg_norm (vsub (positions ! i) (positions ! j)) < communication_range)"

definition euclidean_distance :: "vec \<Rightarrow> vec \<Rightarrow> real" where
  "euclidean_distance p q = sqrt ((p ! 0 - q ! 0) ^ 2 + (p ! 1 - q ! 1) ^ 2 + (p ! 2 - q ! 2) ^ 2)"

text \<open>For the proofs about the encoder: the shape of a layer's parameters.\<close>

definition conv_shape :: "nat \<Rightarrow> nat \<Rightarrow> sage_conv \<Rightarrow> bool" where
  "conv_shape in_channels out_channels c =
     (length (lin_l_weight c) = out_channels \<and> length (lin_l_bias c) = out_channels
      \<and> length (lin_r_weight c) = out_channels
      \<and> (\<forall>row \<in> set (lin_l_weight c). length row = in_channels)
      \<and> (\<forall>row \<in> set (lin_r_weight c). length row = in_channels))"

text \<open>
  For the proofs about the program: the events of the training itself, the events that
  the epochs can add to the trace, and a library
  for the examples, in which tensors carry no data and every loss reads as NaN.
\<close>

fun training_event :: "event \<Rightarrow> bool" where
  "training_event Zero_grad = True"
| "training_event Backward = True"
| "training_event Optimizer_step = True"
| "training_event e = False"

fun loop_event :: "event \<Rightarrow> bool" where
  "loop_event (Print (Epoch_loss k n x)) = True"
| "loop_event (Print m) = False"
| "loop_event Zero_grad = True"
| "loop_event Backward = True"
| "loop_event Optimizer_step = True"
| "loop_event e = False"

definition nan_lib :: "(unit, unit, unit, unit) torch" where
  "nan_lib =
     \<lparr>nn_SAGEConv = (\<lambda>i out r. ((), r)),
      nn_conv = (\<lambda>c x e. ()),
      F_relu = (\<lambda>x. ()),
      F_dropout = (\<lambda>x p t r. ((), r)),
      torch_tensor = (\<lambda>m. ()),
      torch_index = (\<lambda>x idx. ()),
      torch_mul = (\<lambda>x y. ()),
      torch_sum_dim1 = (\<lambda>x. ()),
      torch_sigmoid = (\<lambda>x. ()),
      torch_log = (\<lambda>x. ()),
      torch_mean = (\<lambda>x. ()),
      torch_neg = (\<lambda>x. ()),
      torch_sub = (\<lambda>x y. ()),
      torch_rsub = (\<lambda>a x. ()),
      torch_item = (\<lambda>x. NaN),
      torch_numpy = (\<lambda>x. x),
      optim_Adam = (\<lambda>m lr. ()),
      optim_zero_grad = (\<lambda>opt m. m),
      torch_backward = (\<lambda>loss m. m),
      optim_step = (\<lambda>opt m. (opt, m)),
      np_randn = (\<lambda>n g. (replicate n 0, g))\<rparr>"














section \<open>Proofs: the network generator\<close>

lemma square_set_entry: "square n a \<Longrightarrow> square n (set_entry a i j v)"
  by (cases "i < length a") (auto simp: square_def set_entry_def nth_list_update)

lemma nth_set_entry:
  "square n a \<Longrightarrow> i < n \<Longrightarrow> j < n \<Longrightarrow> x < n \<Longrightarrow> y < n \<Longrightarrow>
     set_entry a i j v ! x ! y = (if x = i \<and> y = j then v else a ! x ! y)"
  by (auto simp: square_def set_entry_def nth_list_update)

lemma link_if_close_entries:
  assumes "square n b" and "i < n" and "m < n" and "i < m"
  shows "square n (link_if_close positions i m b)"
    and "x < n \<Longrightarrow> y < n \<Longrightarrow> link_if_close positions i m b ! x ! y =
           (if ((x = i \<and> y = m) \<or> (x = m \<and> y = i)) \<and> close positions i m then 1 else b ! x ! y)"
proof -
  have sq1: "square n (set_entry b i m 1)" using assms(1) by (rule square_set_entry)
  show "square n (link_if_close positions i m b)"
    using assms(1) sq1 by (simp add: link_if_close_def Let_def square_set_entry)
  assume xy: "x < n" "y < n"
  have e1: "set_entry (set_entry b i m 1) m i 1 ! x ! y =
              (if x = m \<and> y = i then 1 else set_entry b i m 1 ! x ! y)"
    by (rule nth_set_entry[OF sq1 assms(3) assms(2) xy])
  have e2: "set_entry b i m 1 ! x ! y = (if x = i \<and> y = m then 1 else b ! x ! y)"
    by (rule nth_set_entry[OF assms(1) assms(2) assms(3) xy])
  show "link_if_close positions i m b ! x ! y =
           (if ((x = i \<and> y = m) \<or> (x = m \<and> y = i)) \<and> close positions i m then 1 else b ! x ! y)"
    unfolding link_if_close_def Let_def close_def[symmetric] using e1 e2 by auto
qed

lemma inner_fold_inv:
  assumes "square n a" and "i < n"
  shows "m \<le> n \<Longrightarrow>
     square n (fold (link_if_close positions i) [Suc i..<m] a) \<and>
     (\<forall>x<n. \<forall>y<n. fold (link_if_close positions i) [Suc i..<m] a ! x ! y =
        (if ((x = i \<and> i < y \<and> y < m) \<or> (y = i \<and> i < x \<and> x < m)) \<and> close positions i (max x y)
         then 1 else a ! x ! y))"
proof (induction m)
  case 0
  then show ?case using assms by simp
next
  case (Suc m)
  define b where "b = fold (link_if_close positions i) [Suc i..<m] a"
  from Suc have IH: "square n b"
    "\<forall>x<n. \<forall>y<n. b ! x ! y =
        (if ((x = i \<and> i < y \<and> y < m) \<or> (y = i \<and> i < x \<and> x < m)) \<and> close positions i (max x y)
         then 1 else a ! x ! y)"
    unfolding b_def by simp_all
  show ?case
  proof (cases "Suc i \<le> m")
    case False
    then have e: "[Suc i..<Suc m] = []" "[Suc i..<m] = []" by simp_all
    show ?thesis unfolding e using assms False by auto
  next
    case True
    then have upt: "[Suc i..<Suc m] = [Suc i..<m] @ [m]" by simp
    have m: "m < n" using Suc.prems by simp
    have im: "i < m" using True by simp
    have f: "fold (link_if_close positions i) [Suc i..<Suc m] a = link_if_close positions i m b"
      unfolding upt b_def by simp
    have el: "link_if_close positions i m b ! x ! y =
        (if ((x = i \<and> i < y \<and> y < Suc m) \<or> (y = i \<and> i < x \<and> x < Suc m)) \<and> close positions i (max x y)
         then 1 else a ! x ! y)" if "x < n" "y < n" for x y
    proof -
      have "link_if_close positions i m b ! x ! y =
           (if ((x = i \<and> y = m) \<or> (x = m \<and> y = i)) \<and> close positions i m then 1 else b ! x ! y)"
        by (rule link_if_close_entries(2)[OF IH(1) assms(2) m im that])
      also have "\<dots> = (if ((x = i \<and> i < y \<and> y < Suc m) \<or> (y = i \<and> i < x \<and> x < Suc m)) \<and> close positions i (max x y)
         then 1 else a ! x ! y)"
        using IH(2) that im by (auto simp: less_Suc_eq max_def)
      finally show ?thesis .
    qed
    show ?thesis unfolding f
      using link_if_close_entries(1)[OF IH(1) assms(2) m im] el by blast
  qed
qed

lemma outer_fold_inv:
  "k \<le> n \<Longrightarrow>
     square n (fold (adjacency_inner positions n) [0..<k] (replicate n (replicate n 0))) \<and>
     (\<forall>x<n. \<forall>y<n. fold (adjacency_inner positions n) [0..<k] (replicate n (replicate n 0)) ! x ! y =
        (if x \<noteq> y \<and> min x y < k \<and> close positions (min x y) (max x y) then 1 else 0))"
proof (induction k)
  case 0
  show ?case by (simp add: square_def)
next
  case (Suc k)
  let ?a = "fold (adjacency_inner positions n) [0..<k] (replicate n (replicate n 0))"
  from Suc have IH: "square n ?a"
    "\<forall>x<n. \<forall>y<n. ?a ! x ! y =
        (if x \<noteq> y \<and> min x y < k \<and> close positions (min x y) (max x y) then 1 else 0)"
    by simp_all
  have k: "k < n" using Suc.prems by simp
  have f: "fold (adjacency_inner positions n) [0..<Suc k] (replicate n (replicate n 0))
         = fold (link_if_close positions k) [Suc k..<n] ?a"
    by (simp add: adjacency_inner_def)
  from inner_fold_inv[OF IH(1) k, of n positions]
  have sq: "square n (fold (link_if_close positions k) [Suc k..<n] ?a)"
    and el: "\<forall>x<n. \<forall>y<n. fold (link_if_close positions k) [Suc k..<n] ?a ! x ! y =
        (if ((x = k \<and> k < y \<and> y < n) \<or> (y = k \<and> k < x \<and> x < n)) \<and> close positions k (max x y)
         then 1 else ?a ! x ! y)"
    by simp_all
  have "fold (link_if_close positions k) [Suc k..<n] ?a ! x ! y =
        (if x \<noteq> y \<and> min x y < Suc k \<and> close positions (min x y) (max x y) then 1 else 0)"
    if "x < n" "y < n" for x y
    using el IH(2) that by (auto simp: less_Suc_eq min_def max_def)
  with sq show ?case unfolding f by blast
qed

lemma build_adjacency_entries:
  "square n (build_adjacency positions n)"
  "x < n \<Longrightarrow> y < n \<Longrightarrow> build_adjacency positions n ! x ! y =
        (if x \<noteq> y \<and> close positions (min x y) (max x y) then 1 else 0)"
  using outer_fold_inv[of n n positions] by (auto simp: build_adjacency_def)

lemma length_rand_vec: "length (fst (rand_vec k g)) = k"
  by (induction k arbitrary: g) (auto simp: split_def Let_def)

lemma rand_shape:
  "length (fst (rand rows cols g)) = rows \<and> (\<forall>r \<in> set (fst (rand rows cols g)). length r = cols)"
  by (induction rows arbitrary: g) (auto simp: split_def Let_def length_rand_vec)

lemma norm_vsub_3:
  assumes "length p = 3" and "length q = 3"
  shows "linalg_norm (vsub p q) = euclidean_distance p q"
proof -
  from assms(1) obtain a b c where p: "p = [a, b, c]"
    by (auto simp: length_Suc_conv numeral_3_eq_3)
  from assms(2) obtain d e f where q: "q = [d, e, f]"
    by (auto simp: length_Suc_conv numeral_3_eq_3)
  show ?thesis unfolding p q
    by (simp add: linalg_norm_def vsub_def euclidean_distance_def)
qed

lemma euclidean_distance_sym: "euclidean_distance p q = euclidean_distance q p"
  by (simp add: euclidean_distance_def power2_commute)

lemma make_graph_edges:
  "(i, j, wt) \<in> set (edges (make_graph n positions adjacency features))
     \<longleftrightarrow> i < j \<and> j < n \<and> wt = 1 \<and> adjacency ! i ! j = 1"
  by (auto simp: make_graph_def)

text \<open>
  Claim C4. Whatever the node count, the area size and the random draws, the generated
  adjacency matrix is \<open>num_nodes \<times> num_nodes\<close> with entries 0 and 1, symmetric, with a
  zero diagonal (no self-loops), and for distinct nodes the entry is 1 if and only if
  the Euclidean distance of their 3D positions is strictly below 250. The edges of the
  returned graph are the pairs \<open>i < j\<close> at distance below 250, with weight 1.
  Distances are real numbers here.
\<close>

theorem generated_adjacency:
  assumes "generate_uav_network num_nodes area_size w = ((positions, adjacency, features, G), w')"
  shows "length positions = num_nodes
       \<and> (\<forall>i<num_nodes. length (positions ! i) = 3)
       \<and> length adjacency = num_nodes
       \<and> (\<forall>i<num_nodes. length (adjacency ! i) = num_nodes)
       \<and> (\<forall>i<num_nodes. \<forall>j<num_nodes.
             adjacency ! i ! j = adjacency ! j ! i
           \<and> adjacency ! i ! i = 0
           \<and> adjacency ! i ! j \<in> {0, 1}
           \<and> (i \<noteq> j \<longrightarrow>
                 (adjacency ! i ! j = 1
                    \<longleftrightarrow> euclidean_distance (positions ! i) (positions ! j) < 250)))
       \<and> (\<forall>i j wt. (i, j, wt) \<in> set (edges G)
             \<longleftrightarrow> i < j \<and> j < num_nodes \<and> wt = 1
                 \<and> euclidean_distance (positions ! i) (positions ! j) < 250)"
proof -
  define r where "r = fst (rand num_nodes 3 (np_random w))"
  have pos: "positions = map (\<lambda>row. map2 (*) row [area_size, area_size, 150]) r"
    and adj: "adjacency = build_adjacency positions num_nodes"
    and G: "G = make_graph num_nodes positions adjacency features"
    using assms
    by (auto simp: generate_uav_network_def Let_def split_def print_def r_def)
  have r: "length r = num_nodes" "\<forall>x \<in> set r. length x = 3"
    using rand_shape[of num_nodes 3 "np_random w"] by (simp_all add: r_def)
  have lp: "length positions = num_nodes" by (simp add: pos r)
  have l3: "length (positions ! i) = 3" if "i < num_nodes" for i
    using that r by (simp add: pos)
  have sq: "square num_nodes adjacency"
    unfolding adj by (rule build_adjacency_entries(1))
  have cl: "close positions i j \<longleftrightarrow> euclidean_distance (positions ! i) (positions ! j) < 250"
    if "i < num_nodes" "j < num_nodes" for i j
    by (simp add: close_def communication_range_def norm_vsub_3 l3 that)
  have en: "adjacency ! i ! j =
      (if i \<noteq> j \<and> euclidean_distance (positions ! i) (positions ! j) < 250 then 1 else 0)"
    if "i < num_nodes" "j < num_nodes" for i j
  proof -
    have m: "min i j < num_nodes" "max i j < num_nodes" using that by simp_all
    have "adjacency ! i ! j = (if i \<noteq> j \<and> close positions (min i j) (max i j) then 1 else 0)"
      unfolding adj by (rule build_adjacency_entries(2)[OF that])
    also have "\<dots> = (if i \<noteq> j \<and> euclidean_distance (positions ! i) (positions ! j) < 250 then 1 else 0)"
      unfolding cl[OF m] by (cases "i \<le> j") (simp_all add: min_def max_def euclidean_distance_sym)
    finally show ?thesis .
  qed
  have a: "\<forall>i<num_nodes. \<forall>j<num_nodes.
             adjacency ! i ! j = adjacency ! j ! i
           \<and> adjacency ! i ! i = 0
           \<and> adjacency ! i ! j \<in> {0, 1}
           \<and> (i \<noteq> j \<longrightarrow>
                 (adjacency ! i ! j = 1
                    \<longleftrightarrow> euclidean_distance (positions ! i) (positions ! j) < 250))"
    by (simp add: en euclidean_distance_sym)
  have b: "(i, j, wt) \<in> set (edges G)
             \<longleftrightarrow> i < j \<and> j < num_nodes \<and> wt = 1
                 \<and> euclidean_distance (positions ! i) (positions ! j) < 250" for i j wt
    unfolding G make_graph_edges using en[of i j] by (auto split: if_splits)
  from lp l3 sq a b show ?thesis unfolding square_def by blast
qed

lemma sqrt_less_range: "sqrt x < 250 \<longleftrightarrow> x < 62500"
proof -
  have "sqrt 62500 = sqrt (250\<^sup>2)" by simp
  also have "\<dots> = 250" by simp
  finally have "sqrt 62500 = 250" .
  then have "sqrt x < 250 \<longleftrightarrow> sqrt x < sqrt 62500" by simp
  then show ?thesis by (simp only: real_sqrt_less_iff)
qed

lemma rand_3: "rand 3 3 (0 ## 0 ## 0 ## 4503599627370496 ## 0 ## 0 ## 1125899906842624 ## 0 ## 0 ## sconst 0)
   = ([[0, 0, 0], [1/2, 0, 0], [1/8, 0, 0]], sconst 0)"
  by (simp add: numeral_3_eq_3 random_sample_def)

lemma feats_3: "sample_features 3 (sconst 0) = ([[1 / 2, 3 / 10, 0], [1 / 2, 3 / 10, 0], [1 / 2, 3 / 10, 0]], sconst 0)"
  by (simp add: numeral_3_eq_3 uniform_def random_sample_def)

lemma adj_3: "build_adjacency [[0, 0, 0], [500, 0, 0], [125, 0, 0]] 3 = [[0, 0, 1], [0, 0, 0], [1, 0, 0]]"
  by (simp add: build_adjacency_def adjacency_inner_def link_if_close_def Let_def
      linalg_norm_def vsub_def communication_range_def set_entry_def sqrt_less_range
      numeral_3_eq_3 upt_conv_Cons)


lemma graph_3:
  "make_graph 3 [[0, 0, 0], [500, 0, 0], [125, 0, 0]] [[0, 0, 1], [0, 0, 0], [1, 0, 0]]
      [[1 / 2, 3 / 10, 0], [1 / 2, 3 / 10, 0], [1 / 2, 3 / 10, 0]]
   = \<lparr>nodes = [(0, [0, 0, 0], [1 / 2, 3 / 10, 0]), (Suc 0, [500, 0, 0], [1 / 2, 3 / 10, 0]),
                 (2, [125, 0, 0], [1 / 2, 3 / 10, 0])],
        edges = [(0, 2, 1)]\<rparr>"
  by (simp add: make_graph_def upt_conv_Cons numeral_3_eq_3)

lemma generate_3:
  "generate_uav_network 3 1000
      \<lparr>np_random = 0 ## 0 ## 0 ## 4503599627370496 ## 0 ## 0 ## 1125899906842624 ## 0 ## 0 ## sconst 0, trace = []\<rparr>
   = (([[0, 0, 0], [500, 0, 0], [125, 0, 0]],
       [[0, 0, 1], [0, 0, 0], [1, 0, 0]],
       [[1 / 2, 3 / 10, 0], [1 / 2, 3 / 10, 0], [1 / 2, 3 / 10, 0]],
       \<lparr>nodes = [(0, [0, 0, 0], [1 / 2, 3 / 10, 0]), (Suc 0, [500, 0, 0], [1 / 2, 3 / 10, 0]),
                 (2, [125, 0, 0], [1 / 2, 3 / 10, 0])],
        edges = [(0, 2, 1)]\<rparr>),
      \<lparr>np_random = sconst 0,
       trace = [Print (Generate_nodes 3), Print Average_degree, Print Connect_components]\<rparr>)"
  by (simp add: generate_uav_network_def print_def rand_3 feats_3 adj_3 graph_3 Let_def)

theorem generated_adjacency_witness:
  "generate_uav_network 3 1000
      \<lparr>np_random = 0 ## 0 ## 0 ## 4503599627370496 ## 0 ## 0 ## 1125899906842624 ## 0 ## 0 ## sconst 0, trace = []\<rparr>
   = (([[0, 0, 0], [500, 0, 0], [125, 0, 0]],
       [[0, 0, 1], [0, 0, 0], [1, 0, 0]],
       [[1 / 2, 3 / 10, 0], [1 / 2, 3 / 10, 0], [1 / 2, 3 / 10, 0]],
       \<lparr>nodes = [(0, [0, 0, 0], [1 / 2, 3 / 10, 0]), (Suc 0, [500, 0, 0], [1 / 2, 3 / 10, 0]),
                 (2, [125, 0, 0], [1 / 2, 3 / 10, 0])],
        edges = [(0, 2, 1)]\<rparr>),
      \<lparr>np_random = sconst 0,
       trace = [Print (Generate_nodes 3), Print Average_degree, Print Connect_components]\<rparr>)
   \<and> euclidean_distance [0, 0, 0] [125, 0, 0] < 250
   \<and> \<not> euclidean_distance [0, 0, 0] [500, 0, 0] < 250
   \<and> \<not> euclidean_distance [500, 0, 0] [125, 0, 0] < 250"
proof -
  let ?P = "[[0, 0, 0], [500, 0, 0], [125, 0, 0 :: real]]"
  let ?A = "[[0, 0, 1], [0, 0, 0], [1, 0, 0 :: real]]"
  from generated_adjacency[OF generate_3]
  have H: "\<forall>i<3. \<forall>j<3. i \<noteq> j \<longrightarrow>
             (?A ! i ! j = 1 \<longleftrightarrow> euclidean_distance (?P ! i) (?P ! j) < 250)"
    by blast
  from H[rule_format, of 0 2] have a: "euclidean_distance [0, 0, 0] [125, 0, 0] < 250" by simp
  from H[rule_format, of 0 1] have b: "\<not> euclidean_distance [0, 0, 0] [500, 0, 0] < 250" by simp
  from H[rule_format, of 1 2] have c: "\<not> euclidean_distance [500, 0, 0] [125, 0, 0] < 250" by simp
  from generate_3 a b c show ?thesis by blast
qed

section \<open>Proofs: the feature normalizer\<close>

lemma sum_list_divide: "sum_list (map (\<lambda>v. f v / c) xs) = sum_list (map f xs) / (c :: real)"
  by (induction xs) (simp_all add: add_divide_distrib)

lemma sum_list_centered:
  "sum_list (map (\<lambda>v. v - m) xs) = sum_list xs - real (length xs) * (m :: real)"
  by (induction xs) (simp_all add: algebra_simps)

lemma mean_centered:
  assumes "xs \<noteq> []"
  shows "mean (map (\<lambda>v. (v - mean xs) / s) xs) = 0"
proof -
  have "sum_list (map (\<lambda>v. v - mean xs) xs) = 0"
    using assms by (simp add: sum_list_centered mean_def)
  then show ?thesis by (simp add: mean_def sum_list_divide)
qed

lemma variance_nonneg: "0 \<le> mean (map (\<lambda>v. (v - m) ^ 2) xs)"
proof -
  have "0 \<le> sum_list (map (\<lambda>v. (v - m) ^ 2) xs)"
    by (rule sum_list_nonneg) auto
  then show ?thesis by (simp add: mean_def)
qed

lemma std_scaled:
  assumes "xs \<noteq> []" and "std xs \<noteq> 0"
  shows "std (map (\<lambda>v. (v - mean xs) / std xs) xs) = 1"
proof -
  let ?ys = "map (\<lambda>v. (v - mean xs) / std xs) xs"
  let ?var = "mean (map (\<lambda>v. (v - mean xs) ^ 2) xs)"
  have m0: "mean ?ys = 0" using assms(1) by (rule mean_centered)
  have sq: "(std xs) ^ 2 = ?var"
    unfolding std_def using variance_nonneg by (rule real_sqrt_pow2)
  have "mean (map (\<lambda>v. (v - mean ?ys) ^ 2) ?ys)
          = mean (map (\<lambda>v. (v - mean xs) ^ 2 / (std xs) ^ 2) xs)"
    unfolding m0 by (simp add: o_def power_divide)
  also have "\<dots> = ?var / (std xs) ^ 2"
    by (simp add: mean_def sum_list_divide)
  also have "\<dots> = 1" using assms(2) sq[symmetric] by simp
  finally show ?thesis by (simp add: std_def)
qed

lemma std_zero_constant:
  assumes "std xs = 0" and "v \<in> set xs"
  shows "v = mean xs"
proof -
  have ne: "xs \<noteq> []" using assms(2) by auto
  have "mean (map (\<lambda>v. (v - mean xs) ^ 2) xs) = 0"
    using assms(1) variance_nonneg[of "mean xs" xs] by (simp add: std_def)
  then have "sum_list (map (\<lambda>v. (v - mean xs) ^ 2) xs) = 0"
    using ne by (simp add: mean_def)
  then have "\<forall>w \<in> set (map (\<lambda>v. (v - mean xs) ^ 2) xs). w = 0"
    by (subst (asm) sum_list_nonneg_eq_0_iff) auto
  with assms(2) show ?thesis by auto
qed

lemma column_fit_transform:
  assumes "\<forall>row \<in> set x. c < length row"
  shows "column (fit_transform x) c
           = map (\<lambda>v. (v - mean (column x c)) / scale_of (column x c)) (column x c)"
  using assms by (simp add: column_def fit_transform_def o_def)

text \<open>
  Claim C5. For a feature matrix with at least one row and three columns, the
  normalizer returns a matrix of the same shape whose entries are
  \<open>(x - mean) / std\<close>, column by column. A column of nonzero variance comes out with
  mean 0 and standard deviation 1; for a column of zero variance the divisor is 1 and
  the column comes out all zero. Over the reals the two statistics are exactly 0 and 1.
\<close>

theorem fit_transform_standardizes:
  assumes "x \<noteq> []" and "\<forall>row \<in> set x. length row = 3" and "c < 3"
  shows "length (fit_transform x) = length x
       \<and> (\<forall>r<length x. length (fit_transform x ! r) = 3)
       \<and> (\<forall>r<length x. fit_transform x ! r ! c
              = (x ! r ! c - mean (column x c))
                  / (if std (column x c) = 0 then 1 else std (column x c)))
       \<and> (std (column x c) \<noteq> 0 \<longrightarrow>
              mean (column (fit_transform x) c) = 0 \<and> std (column (fit_transform x) c) = 1)
       \<and> (std (column x c) = 0 \<longrightarrow> (\<forall>r<length x. fit_transform x ! r ! c = 0))"
proof -
  have len: "\<forall>row \<in> set x. c < length row" using assms(2,3) by simp
  have ne: "column x c \<noteq> []" using assms(1) by (simp add: column_def)
  have col: "column (fit_transform x) c
           = map (\<lambda>v. (v - mean (column x c)) / scale_of (column x c)) (column x c)"
    using len by (rule column_fit_transform)
  have entry: "fit_transform x ! r ! c
              = (x ! r ! c - mean (column x c))
                  / (if std (column x c) = 0 then 1 else std (column x c))"
    if "r < length x" for r
  proof -
    have "x ! r \<in> set x" using that by simp
    then have "c < length (x ! r)" using len by blast
    then show ?thesis using that by (simp add: fit_transform_def scale_of_def)
  qed
  have shape: "length (fit_transform x ! r) = 3" if "r < length x" for r
  proof -
    have "x ! r \<in> set x" using that by simp
    then show ?thesis using that assms(2) by (simp add: fit_transform_def)
  qed
  have nz: "mean (column (fit_transform x) c) = 0 \<and> std (column (fit_transform x) c) = 1"
    if "std (column x c) \<noteq> 0"
    unfolding col using that mean_centered[OF ne] std_scaled[OF ne that]
    by (simp add: scale_of_def)
  have z: "fit_transform x ! r ! c = 0" if "std (column x c) = 0" and "r < length x" for r
  proof -
    have "x ! r ! c \<in> set (column x c)" using that(2) by (auto simp: column_def)
    with that(1) have "x ! r ! c = mean (column x c)" by (rule std_zero_constant)
    then show ?thesis using entry[OF that(2)] by simp
  qed
  show ?thesis using entry shape nz z by (simp add: fit_transform_def)
qed

lemma two_rows_stats:
  "mean (column [[1, 5, 0], [3, 5, 2]] 0) = 2"
  "std (column [[1, 5, 0], [3, 5, 2]] 0) = 1"
  "mean (column [[1, 5, 0], [3, 5, 2]] 1) = 5"
  "std (column [[1, 5, 0], [3, 5, 2]] 1) = 0"
  by (simp_all add: column_def mean_def std_def)

theorem fit_transform_standardizes_witness:
  "[[1, 5, 0], [3, 5, 2 :: real]] \<noteq> []
   \<and> std (column [[1, 5, 0], [3, 5, 2]] 0) = 1
   \<and> std (column [[1, 5, 0], [3, 5, 2]] 1) = 0
   \<and> fit_transform [[1, 5, 0], [3, 5, 2]] ! 0 ! 0 = - 1
   \<and> fit_transform [[1, 5, 0], [3, 5, 2]] ! 1 ! 0 = 1
   \<and> mean (column (fit_transform [[1, 5, 0], [3, 5, 2]]) 0) = 0
   \<and> std (column (fit_transform [[1, 5, 0], [3, 5, 2]]) 0) = 1
   \<and> fit_transform [[1, 5, 0], [3, 5, 2]] ! 0 ! 1 = 0
   \<and> fit_transform [[1, 5, 0], [3, 5, 2]] ! 1 ! 1 = 0"
proof -
  have r: "\<forall>row \<in> set [[1, 5, 0], [3, 5, 2 :: real]]. length row = 3" by simp
  have ne: "[[1, 5, 0], [3, 5, 2 :: real]] \<noteq> []" by simp
  from fit_transform_standardizes[OF ne r, of 0] two_rows_stats
  have a: "fit_transform [[1, 5, 0], [3, 5, 2]] ! 0 ! 0 = - 1"
    "fit_transform [[1, 5, 0], [3, 5, 2]] ! 1 ! 0 = 1"
    "mean (column (fit_transform [[1, 5, 0], [3, 5, 2]]) 0) = 0"
    "std (column (fit_transform [[1, 5, 0], [3, 5, 2]]) 0) = 1"
    by simp_all
  from fit_transform_standardizes[OF ne r, of 1] two_rows_stats
  have b: "fit_transform [[1, 5, 0], [3, 5, 2]] ! 0 ! 1 = 0"
    "fit_transform [[1, 5, 0], [3, 5, 2]] ! 1 ! 1 = 0"
    by simp_all
  from a b two_rows_stats show ?thesis by simp
qed

section \<open>Proofs: the encoder\<close>

lemma take_matrix_shape:
  "length (fst (take_matrix rows cols r)) = rows
     \<and> (\<forall>row \<in> set (fst (take_matrix rows cols r)). length row = cols)"
  by (induction rows arbitrary: r) (auto simp: split_def Let_def)

lemma new_sage_conv_shape: "conv_shape i out (fst (new_sage_conv i out r))"
  using take_matrix_shape[of out i]
  by (simp add: new_sage_conv_def conv_shape_def split_def Let_def)

lemma GraphSAGE_init_shape:
  "conv_shape i h (conv1 (fst (GraphSAGE_init real_nn i h out r)))"
  "conv_shape h out (conv2 (fst (GraphSAGE_init real_nn i h out r)))"
  "training (fst (GraphSAGE_init real_nn i h out r))"
  by (simp_all add: GraphSAGE_init_def real_nn_def split_def Let_def new_sage_conv_shape)

lemma sage_conv_forward_shape:
  assumes "conv_shape i out c"
  shows "length (sage_conv_forward c x e) = length x"
    and "\<forall>row \<in> set (sage_conv_forward c x e). length row = out"
  using assms by (auto simp: sage_conv_forward_def conv_shape_def matvec_def)

lemma length_sage_conv_forward: "length (sage_conv_forward c x e) = length x"
  by (simp add: sage_conv_forward_def)

lemma relu_shape:
  "length (relu x) = length x"
  "(\<forall>row \<in> set x. length row = n) \<Longrightarrow> (\<forall>row \<in> set (relu x). length row = n)"
  by (auto simp: relu_def)

lemma dropout_rows_shape:
  "length (fst (dropout_rows p x r)) = length x
     \<and> ((\<forall>row \<in> set x. length row = n) \<longrightarrow> (\<forall>row \<in> set (fst (dropout_rows p x r)). length row = n))"
  by (induction x arbitrary: r) (auto simp: split_def Let_def)

lemma dropout_shape:
  "length (fst (dropout x p t r)) = length x"
  "(\<forall>row \<in> set x. length row = n) \<Longrightarrow> (\<forall>row \<in> set (fst (dropout x p t r)). length row = n)"
  using dropout_rows_shape[of p x r n] by (auto simp: dropout_def)

lemma forward_real:
  "forward real_nn self x e r =
     (sage_conv_forward (conv2 self)
        (fst (dropout (relu (sage_conv_forward (conv1 self) x e)) 0.2 (training self) r)) e,
      snd (dropout (relu (sage_conv_forward (conv1 self) x e)) 0.2 (training self) r))"
  by (simp add: forward_def real_nn_def split_def Let_def)

lemma dropout_rows_entries:
  "\<forall>a<length x. \<forall>b<length (x ! a).
      fst (dropout_rows p x r) ! a ! b = 0 \<or> fst (dropout_rows p x r) ! a ! b = x ! a ! b / (1 - p)"
proof (induction x arbitrary: r)
  case Nil
  show ?case by simp
next
  case (Cons row rows)
  show ?case
  proof (intro allI impI)
    fix a b
    assume a: "a < length (row # rows)" and b: "b < length ((row # rows) ! a)"
    show "fst (dropout_rows p (row # rows) r) ! a ! b = 0
        \<or> fst (dropout_rows p (row # rows) r) ! a ! b = (row # rows) ! a ! b / (1 - p)"
    proof (cases a)
      case 0
      with b show ?thesis by (simp add: split_def Let_def dropout_entry_def)
    next
      case (Suc a')
      with a b Cons.IH[of "sdrop (length row) r"] show ?thesis
        by (simp add: split_def Let_def)
    qed
  qed
qed

lemma aggregate_mean:
  assumes "neighbours e i \<noteq> []" and "k < length (x ! i)"
  shows "aggregate x e i ! k
           = (\<Sum>j\<leftarrow>neighbours e i. x ! j ! k) / real (length (neighbours e i))"
  using assms by (simp add: aggregate_def mean_vectors_def o_def)

text \<open>
  Claim C6. With the layers of the spec, the forward pass is, in this order: the first
  layer, which for each node takes the mean of its neighbours' feature vectors and maps
  it, together with the node's own features, to the first layer's width (32 for a model
  built with widths 3, 32 and 16); the elementwise maximum with 0; dropout with
  \<open>p = 0.2\<close>, which at evaluation is the identity and leaves the generator alone, and in
  training sets each activation to 0 or to itself divided by \<open>0.8\<close> (so that its
  expected value is the activation); and the second layer, whose output, 16 wide, is
  returned as it is.
\<close>

theorem forward_layers:
  "(\<not> training self \<longrightarrow>
       forward real_nn self x e r
         = (sage_conv_forward (conv2 self) (relu (sage_conv_forward (conv1 self) x e)) e, r))
   \<and> (training self \<longrightarrow>
       forward real_nn self x e r
         = (sage_conv_forward (conv2 self)
              (fst (dropout_rows 0.2 (relu (sage_conv_forward (conv1 self) x e)) r)) e,
            snd (dropout_rows 0.2 (relu (sage_conv_forward (conv1 self) x e)) r)))
   \<and> (conv_shape 3 32 (conv1 self) \<and> conv_shape 32 16 (conv2 self) \<longrightarrow>
         length (sage_conv_forward (conv1 self) x e) = length x
       \<and> (\<forall>row \<in> set (sage_conv_forward (conv1 self) x e). length row = 32)
       \<and> length (fst (forward real_nn self x e r)) = length x
       \<and> (\<forall>row \<in> set (fst (forward real_nn self x e r)). length row = 16))
   \<and> (\<forall>i<length x. sage_conv_forward c x e ! i
          = map2 (+) (map2 (+) (matvec (lin_l_weight c) (aggregate x e i)) (lin_l_bias c))
                     (matvec (lin_r_weight c) (x ! i)))
   \<and> (neighbours e i \<noteq> [] \<longrightarrow>
         (\<forall>k<length (x ! i). aggregate x e i ! k
            = (\<Sum>j\<leftarrow>neighbours e i. x ! j ! k) / real (length (neighbours e i))))
   \<and> (\<forall>a<length h. \<forall>b<length (h ! a). relu h ! a ! b = max 0 (h ! a ! b))
   \<and> (\<forall>a<length h. \<forall>b<length (h ! a).
         fst (dropout_rows 0.2 h r) ! a ! b = 0
       \<or> fst (dropout_rows 0.2 h r) ! a ! b = h ! a ! b / 0.8)
   \<and> (u < 0.2 \<and> 0.2 \<le> u' \<longrightarrow>
         dropout_entry 0.2 u v = 0 \<and> dropout_entry 0.2 u' v = v / 0.8
       \<and> 0.8 * dropout_entry 0.2 u' v + 0.2 * dropout_entry 0.2 u v = v)"
proof -
  have ev: "forward real_nn self x e r
         = (sage_conv_forward (conv2 self) (relu (sage_conv_forward (conv1 self) x e)) e, r)"
    if "\<not> training self"
    using that by (simp add: forward_real dropout_def)
  have tr: "forward real_nn self x e r
         = (sage_conv_forward (conv2 self)
              (fst (dropout_rows 0.2 (relu (sage_conv_forward (conv1 self) x e)) r)) e,
            snd (dropout_rows 0.2 (relu (sage_conv_forward (conv1 self) x e)) r))"
    if "training self"
    using that by (simp add: forward_real dropout_def)
  have sh: "length (sage_conv_forward (conv1 self) x e) = length x
       \<and> (\<forall>row \<in> set (sage_conv_forward (conv1 self) x e). length row = 32)
       \<and> length (fst (forward real_nn self x e r)) = length x
       \<and> (\<forall>row \<in> set (fst (forward real_nn self x e r)). length row = 16)"
    if "conv_shape 3 32 (conv1 self) \<and> conv_shape 32 16 (conv2 self)"
  proof -
    from that have c1: "conv_shape 3 32 (conv1 self)" and c2: "conv_shape 32 16 (conv2 self)"
      by simp_all
    show ?thesis
      using sage_conv_forward_shape[OF c1] sage_conv_forward_shape[OF c2]
      by (simp add: forward_real dropout_shape(1) relu_shape(1))
  qed
  have la: "\<forall>i<length x. sage_conv_forward c x e ! i
          = map2 (+) (map2 (+) (matvec (lin_l_weight c) (aggregate x e i)) (lin_l_bias c))
                     (matvec (lin_r_weight c) (x ! i))"
    by (simp add: sage_conv_forward_def)
  have ag: "\<forall>k<length (x ! i). aggregate x e i ! k
            = (\<Sum>j\<leftarrow>neighbours e i. x ! j ! k) / real (length (neighbours e i))"
    if "neighbours e i \<noteq> []"
    using aggregate_mean[OF that] by blast
  have re: "\<forall>a<length h. \<forall>b<length (h ! a). relu h ! a ! b = max 0 (h ! a ! b)"
    by (simp add: relu_def)
  have dr: "\<forall>a<length h. \<forall>b<length (h ! a).
         fst (dropout_rows 0.2 h r) ! a ! b = 0
       \<or> fst (dropout_rows 0.2 h r) ! a ! b = h ! a ! b / 0.8"
    using dropout_rows_entries[of h "0.2" r] by simp
  have de: "dropout_entry 0.2 u v = 0 \<and> dropout_entry 0.2 u' v = v / 0.8
       \<and> 0.8 * dropout_entry 0.2 u' v + 0.2 * dropout_entry 0.2 u v = v"
    if "u < 0.2 \<and> 0.2 \<le> u'"
    using that by (simp add: dropout_entry_def)
  from ev tr sh la ag re dr de show ?thesis by blast
qed

lemma init_shapes:
  "conv_shape 3 32 (conv1 (fst (GraphSAGE_init real_nn 3 32 16 (sconst 1))))"
  "conv_shape 32 16 (conv2 (fst (GraphSAGE_init real_nn 3 32 16 (sconst 1))))"
  "conv_shape 3 32 (conv1 (eval_mode (fst (GraphSAGE_init real_nn 3 32 16 (sconst 1)))))"
  "conv_shape 32 16 (conv2 (eval_mode (fst (GraphSAGE_init real_nn 3 32 16 (sconst 1)))))"
  "training (fst (GraphSAGE_init real_nn 3 32 16 (sconst 1)))"
  "\<not> training (eval_mode (fst (GraphSAGE_init real_nn 3 32 16 (sconst 1))))"
  by (simp_all add: GraphSAGE_init_shape eval_mode_def)

theorem forward_layers_witness:
  "\<not> training (eval_mode (fst (GraphSAGE_init real_nn 3 32 16 (sconst 1))))
   \<and> training (fst (GraphSAGE_init real_nn 3 32 16 (sconst 1)))
   \<and> conv_shape 3 32 (conv1 (fst (GraphSAGE_init real_nn 3 32 16 (sconst 1))))
   \<and> conv_shape 32 16 (conv2 (fst (GraphSAGE_init real_nn 3 32 16 (sconst 1))))
   \<and> snd (forward real_nn (eval_mode (fst (GraphSAGE_init real_nn 3 32 16 (sconst 1))))
            [[1, 2, 3], [4, 5, 6]] [(0, 1), (1, 0)] (sconst (1 / 2))) = sconst (1 / 2)
   \<and> length (fst (forward real_nn (fst (GraphSAGE_init real_nn 3 32 16 (sconst 1)))
            [[1, 2, 3], [4, 5, 6]] [(0, 1), (1, 0)] (sconst (1 / 2)))) = 2
   \<and> length (fst (forward real_nn (fst (GraphSAGE_init real_nn 3 32 16 (sconst 1)))
            [[1, 2, 3], [4, 5, 6]] [(0, 1), (1, 0)] (sconst (1 / 2))) ! 0) = 16
   \<and> neighbours [(0, 1), (1, 0)] 0 \<noteq> []
   \<and> aggregate [[1, 2, 3], [4, 5, 6]] [(0, 1), (1, 0)] 0 ! 0 = 4
   \<and> (1 / 10 :: real) < 0.2 \<and> (0.2 :: real) \<le> 1 / 2
   \<and> dropout_entry 0.2 (1 / 10) 4 = 0
   \<and> dropout_entry 0.2 (1 / 2) 4 = 5"
proof -
  let ?m = "fst (GraphSAGE_init real_nn 3 32 16 (sconst 1))"
  let ?x = "[[1, 2, 3], [4, 5, 6 :: real]]"
  let ?e = "[(0, 1), (1, 0)] :: (nat \<times> nat) list"
  note A = forward_layers[of "eval_mode ?m" ?x ?e "sconst (1 / 2)" _ 0 _ "1 / 10" "1 / 2" 4]
  note B = forward_layers[of ?m ?x ?e "sconst (1 / 2)" _ 0 _ "1 / 10" "1 / 2" 4]
  have nb: "neighbours ?e 0 = [1]" by (simp add: neighbours_def)
  have e1: "snd (forward real_nn (eval_mode ?m) ?x ?e (sconst (1 / 2))) = sconst (1 / 2)"
    using A init_shapes(6) by simp
  have sh: "length (fst (forward real_nn ?m ?x ?e (sconst (1 / 2)))) = 2"
    "\<forall>row \<in> set (fst (forward real_nn ?m ?x ?e (sconst (1 / 2)))). length row = 16"
    using B init_shapes(1,2) by simp_all
  then have s0: "length (fst (forward real_nn ?m ?x ?e (sconst (1 / 2))) ! 0) = 16"
    by (metis nth_mem zero_less_numeral)
  have ag: "aggregate ?x ?e 0 ! 0 = 4"
    using B nb by simp
  have de: "dropout_entry 0.2 (1 / 10) 4 = 0" "dropout_entry 0.2 (1 / 2) 4 = 5"
    using B by simp_all
  from init_shapes e1 sh(1) s0 nb ag de show ?thesis by simp
qed

text \<open>
  Claim C7. With the layers of the spec and parameters of the widths 3, 32 and 16, the
  forward pass returns one row of 16 values for each row of the input, in training and
  at evaluation; at evaluation (after \<^verbatim>\<open>model.eval()\<close>) the result does not depend on
  the state of the random generator, which the call leaves as it was, so that two
  calls with the same parameters, features and edges return the same output.
\<close>

theorem forward_eval_deterministic:
  assumes "conv_shape 3 32 (conv1 self)" and "conv_shape 32 16 (conv2 self)"
  shows "length (fst (forward real_nn self x e r)) = length x
       \<and> (\<forall>row \<in> set (fst (forward real_nn self x e r)). length row = 16)
       \<and> length (fst (forward real_nn (eval_mode self) x e r)) = length x
       \<and> (\<forall>row \<in> set (fst (forward real_nn (eval_mode self) x e r)). length row = 16)
       \<and> fst (forward real_nn (eval_mode self) x e r) = fst (forward real_nn (eval_mode self) x e r')
       \<and> snd (forward real_nn (eval_mode self) x e r) = r"
proof -
  have c: "conv_shape 32 16 (conv2 (eval_mode self))"
    using assms(2) by (simp add: eval_mode_def)
  show ?thesis
    using sage_conv_forward_shape(2)[OF assms(2)] sage_conv_forward_shape(2)[OF c]
    by (simp add: forward_real length_sage_conv_forward dropout_shape(1) relu_shape(1))
      (simp add: dropout_def eval_mode_def)
qed

theorem forward_eval_deterministic_witness:
  "conv_shape 3 32 (conv1 (fst (GraphSAGE_init real_nn 3 32 16 (sconst 1))))
   \<and> conv_shape 32 16 (conv2 (fst (GraphSAGE_init real_nn 3 32 16 (sconst 1))))
   \<and> length (fst (forward real_nn (eval_mode (fst (GraphSAGE_init real_nn 3 32 16 (sconst 1))))
            [[1, 2, 3], [4, 5, 6]] [(0, 1), (1, 0)] (sconst 0))) = 2
   \<and> length (fst (forward real_nn (eval_mode (fst (GraphSAGE_init real_nn 3 32 16 (sconst 1))))
            [[1, 2, 3], [4, 5, 6]] [(0, 1), (1, 0)] (sconst 0)) ! 1) = 16
   \<and> fst (forward real_nn (eval_mode (fst (GraphSAGE_init real_nn 3 32 16 (sconst 1))))
            [[1, 2, 3], [4, 5, 6]] [(0, 1), (1, 0)] (sconst 0))
     = fst (forward real_nn (eval_mode (fst (GraphSAGE_init real_nn 3 32 16 (sconst 1))))
            [[1, 2, 3], [4, 5, 6]] [(0, 1), (1, 0)] (sconst (1 / 2)))"
proof -
  let ?m = "fst (GraphSAGE_init real_nn 3 32 16 (sconst 1))"
  let ?x = "[[1, 2, 3], [4, 5, 6 :: real]]"
  let ?e = "[(0, 1), (1, 0)] :: (nat \<times> nat) list"
  have lx: "length ?x = 2" by simp
  note A = forward_eval_deterministic[OF init_shapes(1,2), of ?x ?e "sconst 0" "sconst (1 / 2)",
      unfolded lx]
  note B = A[THEN conjunct2, THEN conjunct2]
  have l: "length (fst (forward real_nn (eval_mode ?m) ?x ?e (sconst 0))) = 2"
    by (rule B[THEN conjunct1])
  have r: "\<forall>row \<in> set (fst (forward real_nn (eval_mode ?m) ?x ?e (sconst 0))). length row = 16"
    by (rule B[THEN conjunct2, THEN conjunct1])
  have d: "fst (forward real_nn (eval_mode ?m) ?x ?e (sconst 0))
          = fst (forward real_nn (eval_mode ?m) ?x ?e (sconst (1 / 2)))"
    by (rule B[THEN conjunct2, THEN conjunct2, THEN conjunct1])
  have "fst (forward real_nn (eval_mode ?m) ?x ?e (sconst 0)) ! 1
          \<in> set (fst (forward real_nn (eval_mode ?m) ?x ?e (sconst 0)))"
    using l by (intro nth_mem) simp
  with r have s1: "length (fst (forward real_nn (eval_mode ?m) ?x ?e (sconst 0)) ! 1) = 16"
    by blast
  show ?thesis
    by (intro conjI) (rule init_shapes(1) init_shapes(2) l s1 d)+
qed

section \<open>Proofs: negative sampling\<close>

lemma randint_ok: "0 < n \<Longrightarrow> randint 0 n g = Inr (shd g mod n, stl g)"
  by (simp add: randint_def)

lemma loop_post_holds:
  assumes "neg_sampling_loop adj n np acc g = Some r"
  shows "loop_post adj n np acc g r"
proof (rule neg_sampling_loop.raw_induct[where P = loop_post, OF _ assms], goal_cases)
  case (1 loop adj n np acc g r)
  show ?case
  proof (cases "length acc < np")
    case False
    with 1(2) have r: "r = Inr (acc, g)" by simp
    have "np \<le> length acc + accepted adj n 0 g" using False by simp
    then have "\<exists>k. np \<le> length acc + accepted adj n k g" by blast
    with r False show ?thesis unfolding loop_post_def by auto
  next
    case True
    show ?thesis
    proof (cases "0 < n")
      case False
      then show ?thesis by (simp add: loop_post_def)
    next
      case n: True
      let ?i = "shd g mod n" and ?j = "shd (stl g) mod n"
      have ij: "?i < n" "?j < n" using n by simp_all
      show ?thesis
      proof (cases "accepts adj n g")
        case a: True
        then have "loop adj n np (acc @ [(?i, ?j)]) (stl (stl g)) = Some r"
          using 1(2) True n by (simp add: randint_ok accepts_def Let_def)
        from 1(1)[OF this] n obtain ps g' k where
          r: "r = Inr (ps, g')" and
          k: "np \<le> length (acc @ [(?i, ?j)]) + accepted adj n k (stl (stl g))" and
          len: "length (acc @ [(?i, ?j)]) \<le> np \<longrightarrow> length ps = np" and
          el: "\<forall>(i, j) \<in> set ps. (i, j) \<in> set (acc @ [(?i, ?j)]) \<or> (i \<noteq> j \<and> adj ! i ! j = 0 \<and> i < n \<and> j < n)"
          unfolding loop_post_def by auto
        have "np \<le> length acc + accepted adj n (Suc k) g" using k a by simp
        then have ex: "\<exists>k. np \<le> length acc + accepted adj n k g" by blast
        have len': "length ps = np" using len True by simp
        have el': "\<forall>(i, j) \<in> set ps. (i, j) \<in> set acc \<or> (i \<noteq> j \<and> adj ! i ! j = 0 \<and> i < n \<and> j < n)"
          using el a ij by (auto simp: accepts_def Let_def)
        show ?thesis unfolding loop_post_def using r ex len' el' by blast
      next
        case a: False
        then have "loop adj n np acc (stl (stl g)) = Some r"
          using 1(2) True n by (auto simp add: randint_ok accepts_def Let_def)
        from 1(1)[OF this] n obtain ps g' k where
          r: "r = Inr (ps, g')" and
          k: "np \<le> length acc + accepted adj n k (stl (stl g))" and
          len: "length acc \<le> np \<longrightarrow> length ps = np" and
          el: "\<forall>(i, j) \<in> set ps. (i, j) \<in> set acc \<or> (i \<noteq> j \<and> adj ! i ! j = 0 \<and> i < n \<and> j < n)"
          unfolding loop_post_def by auto
        have "np \<le> length acc + accepted adj n (Suc k) g" using k a by simp
        then have ex: "\<exists>k. np \<le> length acc + accepted adj n k g" by blast
        show ?thesis unfolding loop_post_def using r ex len el by blast
      qed
    qed
  qed
qed

lemma loop_returns:
  assumes "0 < n"
  shows "num_pos \<le> length acc + accepted adj n k g \<Longrightarrow>
         \<exists>ps g'. neg_sampling_loop adj n num_pos acc g = Some (Inr (ps, g'))"
proof (induction k arbitrary: acc g)
  case 0
  then show ?case by (subst neg_sampling_loop.simps) simp
next
  case (Suc k)
  show ?case
  proof (cases "length acc < num_pos")
    case False
    then show ?thesis by (subst neg_sampling_loop.simps) simp
  next
    case True
    show ?thesis
    proof (cases "accepts adj n g")
      case acc: True
      have "num_pos \<le> length (acc @ [(shd g mod n, shd (stl g) mod n)]) + accepted adj n k (stl (stl g))"
        using Suc.prems acc by simp
      from Suc.IH[OF this] show ?thesis
        using True acc assms
        by (subst neg_sampling_loop.simps) (simp add: randint_ok accepts_def Let_def)
    next
      case rej: False
      have "num_pos \<le> length acc + accepted adj n k (stl (stl g))"
        using Suc.prems rej by simp
      from Suc.IH[OF this] show ?thesis
        using True rej assms
        by (subst neg_sampling_loop.simps) (auto simp add: randint_ok accepts_def Let_def)
    qed
  qed
qed

lemma edge_index_of_mem:
  "(i, j) \<in> set (edge_index_of adj n) \<longleftrightarrow> i < n \<and> j < n \<and> adj ! i ! j = 1"
  by (auto simp: edge_index_of_def)

lemma edge_index_of_zero: "edge_index_of adj 0 = []"
  by (simp add: edge_index_of_def)

lemma accepted_complete:
  assumes "0 < n" and "\<forall>i<n. \<forall>j<n. i \<noteq> j \<longrightarrow> adj ! i ! j \<noteq> 0"
  shows "accepted adj n k g = 0"
proof (induction k arbitrary: g)
  case 0
  show ?case by simp
next
  case (Suc k)
  have "shd g mod n < n" "shd (stl g) mod n < n" using assms(1) by simp_all
  then have "\<not> accepts adj n g"
    using assms(2) by (auto simp add: accepts_def Let_def)
  with Suc show ?case by simp
qed

text \<open>
  Claim C3, as amended. \<open>P\<close> is the number of positive pairs, the length of the
  directed edge list. Negative sampling does not return in every epoch: it returns
  exactly when the draws supply \<open>P\<close> accepted pairs. Whenever it returns, it returns a
  list and never an error; the list has exactly \<open>P\<close> pairs, and every pair \<open>(i, j)\<close> of
  it has \<open>i \<noteq> j\<close>, is not in the edge list and lies inside the node range. Nothing
  removes duplicates (the example below returns the pair \<open>(0, 2)\<close> three times).
\<close>

theorem neg_sampling_pairs:
  fixes adjacency :: matrix and num_nodes :: nat
  defines "P \<equiv> length (edge_index_of adjacency num_nodes)"
  shows "(\<forall>r. neg_sampling adjacency num_nodes P g = Some r \<longrightarrow>
            (\<exists>neg_samples g'. r = Inr (neg_samples, g') \<and> length neg_samples = P \<and>
               (\<forall>(i, j) \<in> set neg_samples.
                   i \<noteq> j \<and> (i, j) \<notin> set (edge_index_of adjacency num_nodes)
                   \<and> i < num_nodes \<and> j < num_nodes)))
       \<and> ((\<exists>neg_samples g'. neg_sampling adjacency num_nodes P g = Some (Inr (neg_samples, g')))
            \<longleftrightarrow> (\<exists>k. P \<le> accepted adjacency num_nodes k g))"
proof (cases "0 < num_nodes")
  case False
  then have "P = 0" by (simp add: P_def edge_index_of_zero)
  then have "neg_sampling adjacency num_nodes P g = Some (Inr ([], g))"
    unfolding neg_sampling_def by (subst neg_sampling_loop.simps) simp
  with \<open>P = 0\<close> show ?thesis by simp
next
  case n: True
  have part: "\<exists>neg_samples g'. r = Inr (neg_samples, g') \<and> length neg_samples = P \<and>
               (\<forall>(i, j) \<in> set neg_samples.
                   i \<noteq> j \<and> (i, j) \<notin> set (edge_index_of adjacency num_nodes)
                   \<and> i < num_nodes \<and> j < num_nodes)"
    if "neg_sampling adjacency num_nodes P g = Some r" for r
  proof -
    from that have "loop_post adjacency num_nodes P [] g r"
      unfolding neg_sampling_def by (rule loop_post_holds)
    with n obtain ps g' where r: "r = Inr (ps, g')" and len: "length ps = P"
      and el: "\<forall>(i, j) \<in> set ps. i \<noteq> j \<and> adjacency ! i ! j = 0 \<and> i < num_nodes \<and> j < num_nodes"
      unfolding loop_post_def by auto
    have "\<forall>(i, j) \<in> set ps. i \<noteq> j \<and> (i, j) \<notin> set (edge_index_of adjacency num_nodes)
                   \<and> i < num_nodes \<and> j < num_nodes"
      using el by (auto simp: edge_index_of_mem)
    with r len show ?thesis by blast
  qed
  have tot: "\<exists>neg_samples g'. neg_sampling adjacency num_nodes P g = Some (Inr (neg_samples, g'))"
    if "\<exists>k. P \<le> accepted adjacency num_nodes k g"
  proof -
    from that obtain k where "P \<le> length ([] :: (nat \<times> nat) list) + accepted adjacency num_nodes k g"
      by auto
    from loop_returns[OF n this] show ?thesis by (simp add: neg_sampling_def)
  qed
  have conv: "\<exists>k. P \<le> accepted adjacency num_nodes k g"
    if "\<exists>neg_samples g'. neg_sampling adjacency num_nodes P g = Some (Inr (neg_samples, g'))"
  proof -
    from that obtain ps g' where "neg_sampling adjacency num_nodes P g = Some (Inr (ps, g'))"
      by blast
    then have "loop_post adjacency num_nodes P [] g (Inr (ps, g'))"
      unfolding neg_sampling_def by (rule loop_post_holds)
    with n show ?thesis unfolding loop_post_def by auto
  qed
  from part tot conv show ?thesis by blast
qed

text \<open>
  Claim C1, as amended. The rejection loop has no retry budget and no failure
  condition. It returns exactly when the draws supply \<open>num_pos\<close> accepted pairs,
  however many rounds that takes; when it returns, the result is the list of samples
  and never an error; and on a graph whose distinct nodes are all adjacent it does
  not return, whatever the draws.
\<close>

theorem neg_sampling_unbounded:
  assumes "0 < num_nodes"
  shows "(neg_sampling adjacency num_nodes num_pos g \<noteq> None
            \<longleftrightarrow> (\<exists>k. num_pos \<le> accepted adjacency num_nodes k g))
       \<and> (\<forall>r. neg_sampling adjacency num_nodes num_pos g = Some r \<longrightarrow>
             (\<exists>neg_samples g'. r = Inr (neg_samples, g')))
       \<and> (0 < num_pos \<and> (\<forall>i<num_nodes. \<forall>j<num_nodes. i \<noteq> j \<longrightarrow> adjacency ! i ! j \<noteq> 0)
             \<longrightarrow> neg_sampling adjacency num_nodes num_pos g = None)"
proof -
  have post: "loop_post adjacency num_nodes num_pos [] g r"
    if "neg_sampling adjacency num_nodes num_pos g = Some r" for r
    using that unfolding neg_sampling_def by (rule loop_post_holds)
  have a: "\<exists>k. num_pos \<le> accepted adjacency num_nodes k g"
    if "neg_sampling adjacency num_nodes num_pos g \<noteq> None"
  proof -
    from that obtain r where "neg_sampling adjacency num_nodes num_pos g = Some r" by auto
    from post[OF this] assms show ?thesis unfolding loop_post_def by auto
  qed
  have b: "neg_sampling adjacency num_nodes num_pos g \<noteq> None"
    if "\<exists>k. num_pos \<le> accepted adjacency num_nodes k g"
  proof -
    from that obtain k where "num_pos \<le> length ([] :: (nat \<times> nat) list) + accepted adjacency num_nodes k g"
      by auto
    from loop_returns[OF assms this] show ?thesis by (auto simp add: neg_sampling_def)
  qed
  have c: "\<exists>neg_samples g'. r = Inr (neg_samples, g')"
    if "neg_sampling adjacency num_nodes num_pos g = Some r" for r
    using post[OF that] assms unfolding loop_post_def by auto
  have d: "neg_sampling adjacency num_nodes num_pos g = None"
    if "0 < num_pos" and "\<forall>i<num_nodes. \<forall>j<num_nodes. i \<noteq> j \<longrightarrow> adjacency ! i ! j \<noteq> 0"
  proof (rule ccontr)
    assume "neg_sampling adjacency num_nodes num_pos g \<noteq> None"
    from a[OF this] obtain k where "num_pos \<le> accepted adjacency num_nodes k g" by blast
    with accepted_complete[OF assms that(2)] that(1) show False by simp
  qed
  from a b c d show ?thesis by blast
qed

lemma K2_edges: "edge_index_of [[0, 1], [1, 0]] 2 = [(0, 1), (1, 0)]"
  by (simp add: edge_index_of_def upt_conv_Cons numeral_2_eq_2)

text \<open>
  Claim C1 as stated fails: on the complete graph of two nodes, with the draws
  \<open>0, 1, 0, 1, \<dots>\<close>, negative sampling for the two positive pairs neither returns
  samples nor reports a failure: it does not return.
\<close>

theorem neg_sampling_retry_cap_counterexample:
  "neg_sampling [[0, 1], [1, 0]] 2 (length (edge_index_of [[0, 1], [1, 0]] 2)) (cycle [0, 1])
     = None"
proof -
  have "\<forall>i<2. \<forall>j<2. i \<noteq> j \<longrightarrow> [[0, 1], [1, 0::real]] ! i ! j \<noteq> 0"
    by (auto simp: less_2_cases_iff)
  then have "accepted [[0, 1], [1, 0]] 2 k g = 0" for k g
    by (intro accepted_complete) simp_all
  moreover have "0 < length (edge_index_of [[0, 1], [1, 0]] 2)" by (simp add: K2_edges)
  ultimately show ?thesis using loop_post_holds[of "[[0, 1], [1, 0]]" 2 "length (edge_index_of [[0, 1], [1, 0]] 2)" "[]" "cycle [0,1]"]
    unfolding neg_sampling_def loop_post_def by (cases "neg_sampling_loop [[0, 1], [1, 0]] 2 (length (edge_index_of [[0, 1], [1, 0]] 2)) [] (cycle [0, 1])") auto
qed

lemma P3_edges: "edge_index_of [[0, 1, 0], [1, 0, 1], [0, 1, 0]] 3 = [(0, 1), (1, 0), (1, 2), (2, 1)]"
  by (simp add: edge_index_of_def upt_conv_Cons numeral_3_eq_3)

lemma P3_accepted: "4 \<le> accepted [[0, 1, 0], [1, 0, 1], [0, 1, 0]] 3 (Suc (Suc (Suc (Suc (Suc 0))))) ([0, 2, 0, 2, 2, 0, 1, 1, 0, 2] @- sconst 0)"
  by (simp add: accepts_def)

lemma P3_run: "neg_sampling [[0, 1, 0], [1, 0, 1], [0, 1, 0]] 3 4 ([0, 2, 0, 2, 2, 0, 1, 1, 0, 2] @- sconst 0)
   = Some (Inr ([(0, 2), (0, 2), (2, 0), (0, 2)], sconst 0))"
  by (simp add: neg_sampling_def neg_sampling_loop.simps randint_def)

theorem neg_sampling_pairs_witness:
  "neg_sampling [[0, 1, 0], [1, 0, 1], [0, 1, 0]] 3
      (length (edge_index_of [[0, 1, 0], [1, 0, 1], [0, 1, 0]] 3))
      ([0, 2, 0, 2, 2, 0, 1, 1, 0, 2] @- sconst 0)
     = Some (Inr ([(0, 2), (0, 2), (2, 0), (0, 2)], sconst 0))
   \<and> (\<exists>k. length (edge_index_of [[0, 1, 0], [1, 0, 1], [0, 1, 0]] 3)
       \<le> accepted [[0, 1, 0], [1, 0, 1], [0, 1, 0]] 3 k ([0, 2, 0, 2, 2, 0, 1, 1, 0, 2] @- sconst 0))
   \<and> length [(0, 2), (0, 2), (2, 0), (0::nat, 2::nat)]
       = length (edge_index_of [[0, 1, 0], [1, 0, 1], [0, 1, 0]] 3)
   \<and> (0::nat, 2::nat) \<notin> set (edge_index_of [[0, 1, 0], [1, 0, 1], [0, 1, 0]] 3)
   \<and> (2::nat, 0::nat) \<notin> set (edge_index_of [[0, 1, 0], [1, 0, 1], [0, 1, 0]] 3)"
proof -
  have len: "length (edge_index_of [[0, 1, 0], [1, 0, 1], [0, 1, 0]] 3) = 4"
    by (simp add: P3_edges)
  have ex: "\<exists>k. 4 \<le> accepted [[0, 1, 0], [1, 0, 1], [0, 1, 0]] 3 k ([0, 2, 0, 2, 2, 0, 1, 1, 0, 2] @- sconst 0)"
    using P3_accepted by (rule exI)
  from neg_sampling_pairs[of "[[0, 1, 0], [1, 0, 1], [0, 1, 0]]" 3 "[0, 2, 0, 2, 2, 0, 1, 1, 0, 2] @- sconst 0"]
  have "\<forall>(i, j) \<in> set [(0, 2), (0, 2), (2, 0), (0::nat, 2::nat)].
         i \<noteq> j \<and> (i, j) \<notin> set (edge_index_of [[0, 1, 0], [1, 0, 1], [0, 1, 0]] 3)"
    unfolding len using P3_run by auto
  then have "(0::nat, 2::nat) \<notin> set (edge_index_of [[0, 1, 0], [1, 0, 1], [0, 1, 0]] 3)"
    and "(2::nat, 0::nat) \<notin> set (edge_index_of [[0, 1, 0], [1, 0, 1], [0, 1, 0]] 3)"
    by simp_all
  with len P3_run ex show ?thesis by simp
qed

theorem neg_sampling_unbounded_witness:
  "(0::nat) < 3
   \<and> neg_sampling [[0, 1, 0], [1, 0, 1], [0, 1, 0]] 3 4 ([0, 2, 0, 2, 2, 0, 1, 1, 0, 2] @- sconst 0) \<noteq> None
   \<and> (\<exists>k. 4 \<le> accepted [[0, 1, 0], [1, 0, 1], [0, 1, 0]] 3 k ([0, 2, 0, 2, 2, 0, 1, 1, 0, 2] @- sconst 0))
   \<and> neg_sampling [[0, 1], [1, 0]] 2 2 (sconst 0) = None"
proof -
  have c: "\<forall>i<2. \<forall>j<2. i \<noteq> j \<longrightarrow> [[0, 1], [1, 0::real]] ! i ! j \<noteq> 0"
    by (auto simp: less_2_cases_iff)
  have a: "neg_sampling [[0, 1], [1, 0]] 2 2 (sconst 0) = None"
    using neg_sampling_unbounded[of 2 "[[0, 1], [1, 0]]" 2 "sconst 0"] c by simp
  have b: "(\<exists>k. 4 \<le> accepted [[0, 1, 0], [1, 0, 1], [0, 1, 0]] 3 k ([0, 2, 0, 2, 2, 0, 1, 1, 0, 2] @- sconst 0))"
    using neg_sampling_unbounded[of 3 "[[0, 1, 0], [1, 0, 1], [0, 1, 0]]" 4 "[0, 2, 0, 2, 2, 0, 1, 1, 0, 2] @- sconst 0"] P3_run
    by simp
  from a b P3_run show ?thesis by simp
qed

lemma rand_2_origin:
  "rand 2 3 (0 ## 0 ## 0 ## 0 ## 0 ## 0 ## s) = ([[0, 0, 0], [0, 0, 0]], s)"
proof -
  have "rand (Suc (Suc 0)) 3 (0 ## 0 ## 0 ## 0 ## 0 ## 0 ## s) = ([[0, 0, 0], [0, 0, 0]], s)"
    by (simp add: numeral_3_eq_3 random_sample_def)
  then show ?thesis by (simp only: numeral_2_eq_2)
qed

lemma feats_2_tail:
  "sample_features 2 (0 ## 0 ## 0 ## 0 ## 0 ## 0 ## s)
     = ([[1 / 2, 3 / 10, 0], [1 / 2, 3 / 10, 0]], s)"
proof -
  have "sample_features (Suc (Suc 0)) (0 ## 0 ## 0 ## 0 ## 0 ## 0 ## s)
          = ([[1 / 2, 3 / 10, 0], [1 / 2, 3 / 10, 0]], s)"
    by (simp add: uniform_def random_sample_def)
  then show ?thesis by (simp only: numeral_2_eq_2)
qed

lemma adj_2_origin: "build_adjacency [[0, 0, 0], [0, 0, 0]] 2 = [[0, 1], [1, 0]]"
  by (simp add: build_adjacency_def adjacency_inner_def link_if_close_def Let_def
      linalg_norm_def vsub_def communication_range_def set_entry_def
      numeral_2_eq_2 upt_conv_Cons)

lemma graph_2_origin:
  "make_graph 2 [[0, 0, 0], [0, 0, 0]] [[0, 1], [1, 0]]
      [[1 / 2, 3 / 10, 0], [1 / 2, 3 / 10, 0]]
   = \<lparr>nodes = [(0, [0, 0, 0], [1 / 2, 3 / 10, 0]), (Suc 0, [0, 0, 0], [1 / 2, 3 / 10, 0])],
      edges = [(0, Suc 0, 1)]\<rparr>"
  by (simp add: make_graph_def upt_conv_Cons numeral_2_eq_2)

lemma generate_2_origin:
  "generate_uav_network 2 1000
      \<lparr>np_random = 0 ## 0 ## 0 ## 0 ## 0 ## 0 ## 0 ## 0 ## 0 ## 0 ## 0 ## 0 ## cycle [1, 0],
       trace = []\<rparr>
   = (([[0, 0, 0], [0, 0, 0]],
       [[0, 1], [1, 0]],
       [[1 / 2, 3 / 10, 0], [1 / 2, 3 / 10, 0]],
       \<lparr>nodes = [(0, [0, 0, 0], [1 / 2, 3 / 10, 0]), (Suc 0, [0, 0, 0], [1 / 2, 3 / 10, 0])],
        edges = [(0, Suc 0, 1)]\<rparr>),
      \<lparr>np_random = cycle [1, 0],
       trace = [Print (Generate_nodes 2), Print Average_degree, Print Connect_components]\<rparr>)"
  by (simp add: generate_uav_network_def print_def rand_2_origin feats_2_tail adj_2_origin
      graph_2_origin Let_def)

lemma complete_never_returns:
  assumes "0 < n" and "0 < np" and "\<forall>i<n. \<forall>j<n. i \<noteq> j \<longrightarrow> adj ! i ! j \<noteq> 0"
  shows "neg_sampling adj n np g = None"
proof (rule ccontr)
  assume "neg_sampling adj n np g \<noteq> None"
  then obtain r where "neg_sampling adj n np g = Some r" by auto
  then have "loop_post adj n np [] g r"
    unfolding neg_sampling_def by (rule loop_post_holds)
  with assms(1) obtain k where "np \<le> accepted adj n k g"
    unfolding loop_post_def by auto
  with accepted_complete[OF assms(1,3)] assms(2) show False by simp
qed

text \<open>
  Claim C3 as stated fails: two nodes generated at the same place are linked, the
  graph is complete, both directed pairs are edges, and negative sampling for the two
  positive pairs produces nothing: it does not return.
\<close>

theorem neg_sampling_complete_graph_counterexample:
  "generate_uav_network 2 1000
      \<lparr>np_random = 0 ## 0 ## 0 ## 0 ## 0 ## 0 ## 0 ## 0 ## 0 ## 0 ## 0 ## 0 ## cycle [1, 0],
       trace = []\<rparr>
   = (([[0, 0, 0], [0, 0, 0]],
       [[0, 1], [1, 0]],
       [[1 / 2, 3 / 10, 0], [1 / 2, 3 / 10, 0]],
       \<lparr>nodes = [(0, [0, 0, 0], [1 / 2, 3 / 10, 0]), (Suc 0, [0, 0, 0], [1 / 2, 3 / 10, 0])],
        edges = [(0, Suc 0, 1)]\<rparr>),
      \<lparr>np_random = cycle [1, 0],
       trace = [Print (Generate_nodes 2), Print Average_degree, Print Connect_components]\<rparr>)
   \<and> edge_index_of [[0, 1], [1, 0]] 2 = [(0, 1), (1, 0)]
   \<and> neg_sampling [[0, 1], [1, 0]] 2 (length (edge_index_of [[0, 1], [1, 0]] 2)) (cycle [1, 0])
       = None"
proof -
  have c: "\<forall>i<2. \<forall>j<2. i \<noteq> j \<longrightarrow> [[0, 1], [1, 0::real]] ! i ! j \<noteq> 0"
    by (auto simp: less_2_cases_iff)
  have "neg_sampling [[0, 1], [1, 0]] 2 (length (edge_index_of [[0, 1], [1, 0]] 2)) (cycle [1, 0])
       = None"
    by (rule complete_never_returns[OF _ _ c]) (simp_all add: K2_edges)
  with generate_2_origin K2_edges show ?thesis by blast
qed

section \<open>Proofs: the training loop and the program\<close>

lemma trace_print [simp]: "trace (print m w) = trace w @ [Print m]"
  by (simp add: print_def)

lemma trace_emit [simp]: "trace (emit e w) = trace w @ [e]"
  by (simp add: emit_def)

lemma np_random_print [simp]: "np_random (print m w) = np_random w"
  by (simp add: print_def)

lemma np_random_emit [simp]: "np_random (emit e w) = np_random w"
  by (simp add: emit_def)

lemma generate_trace:
  "trace (snd (generate_uav_network n a w))
     = trace w @ [Print (Generate_nodes n), Print Average_degree, Print Connect_components]"
  by (simp add: generate_uav_network_def Let_def split_def)

lemma neg_sampling_no_error:
  assumes "0 < n" and "neg_sampling adj n np g = Some r"
  shows "\<exists>ps g'. r = Inr (ps, g')"
proof -
  from assms(2) have "loop_post adj n np [] g r"
    unfolding neg_sampling_def by (rule loop_post_holds)
  with assms(1) show ?thesis unfolding loop_post_def by auto
qed

lemma epoch_finish_fields:
  "losses (epoch_finish lib ne epoch s m1 w1 emb r1 pos neg)
     = losses s @ [torch_item lib (loss_of lib (similarity lib emb pos) (similarity lib emb neg))]"
  "trace (env (epoch_finish lib ne epoch s m1 w1 emb r1 pos neg))
     = trace w1 @ [Backward, Optimizer_step]
         @ (if (epoch + 1) mod 10 = 0
            then [Print (Epoch_loss (epoch + 1) ne
                    (torch_item lib (loss_of lib (similarity lib emb pos) (similarity lib emb neg))))]
            else [])"
  "model (epoch_finish lib ne epoch s m1 w1 emb r1 pos neg)
     = snd (optim_step lib (optimizer s)
              (torch_backward lib (loss_of lib (similarity lib emb pos) (similarity lib emb neg)) m1))"
  "torch_random (epoch_finish lib ne epoch s m1 w1 emb r1 pos neg) = r1"
  by (simp_all add: epoch_finish_def Let_def split_def)

lemma epoch_body_returns:
  assumes "neg_sampling adj n (length e) (np_random (env s)) = Some (Inr (neg, g))"
  shows "epoch_body lib n ne adj f e epoch s
           = Some (Inr (epoch_finish lib ne epoch s
                          (optim_zero_grad lib (optimizer s) (model s))
                          ((emit Zero_grad (env s))\<lparr>np_random := g\<rparr>)
                          (fst (forward lib (optim_zero_grad lib (optimizer s) (model s)) f e
                                  (torch_random s)))
                          (snd (forward lib (optim_zero_grad lib (optimizer s) (model s)) f e
                                  (torch_random s)))
                          e neg))"
  using assms by (simp add: epoch_body_def Let_def split_def)

lemma epoch_body_Inr:
  assumes "epoch_body lib n ne adj f e epoch s = Some (Inr s')"
  shows "\<exists>neg g. neg_sampling adj n (length e) (np_random (env s)) = Some (Inr (neg, g))
           \<and> s' = epoch_finish lib ne epoch s
                          (optim_zero_grad lib (optimizer s) (model s))
                          ((emit Zero_grad (env s))\<lparr>np_random := g\<rparr>)
                          (fst (forward lib (optim_zero_grad lib (optimizer s) (model s)) f e
                                  (torch_random s)))
                          (snd (forward lib (optim_zero_grad lib (optimizer s) (model s)) f e
                                  (torch_random s)))
                          e neg"
  using assms
  by (auto simp: epoch_body_def Let_def split_def split: option.splits sum.splits)

lemma epoch_body_Inl:
  assumes "epoch_body lib n ne adj f e epoch s = Some (Inl (er, w))"
  shows "n = 0 \<and> trace w = trace (env s) @ [Zero_grad]"
proof -
  from assms have ns: "neg_sampling adj n (length e) (np_random (env s)) = Some (Inl er)"
    and w: "w = emit Zero_grad (env s)"
    by (auto simp: epoch_body_def Let_def split_def split: option.splits sum.splits)
  have "n = 0"
  proof (rule ccontr)
    assume "n \<noteq> 0"
    then have "0 < n" by simp
    from neg_sampling_no_error[OF this ns] show False by simp
  qed
  with w show ?thesis by simp
qed

lemma epoch_body_trace:
  assumes "epoch_body lib n ne adj f e epoch s = Some (Inr s')"
  shows "length (losses s') = Suc (length (losses s))"
    and "\<exists>evs. trace (env s') = trace (env s) @ evs \<and> (\<forall>ev \<in> set evs. loop_event ev)
           \<and> length (filter (\<lambda>ev. ev = Optimizer_step) evs) = 1"
proof -
  from epoch_body_Inr[OF assms] obtain neg g m1 emb r1 where
    s': "s' = epoch_finish lib ne epoch s m1 ((emit Zero_grad (env s))\<lparr>np_random := g\<rparr>) emb r1 e neg"
    by blast
  show "length (losses s') = Suc (length (losses s))"
    unfolding s' by (simp add: epoch_finish_fields(1))
  have "trace (env s') = trace (env s) @ ([Zero_grad, Backward, Optimizer_step]
         @ (if (epoch + 1) mod 10 = 0
            then [Print (Epoch_loss (epoch + 1) ne
                    (torch_item lib (loss_of lib (similarity lib emb e) (similarity lib emb neg))))]
            else []))"
    unfolding s' by (simp add: epoch_finish_fields(2))
  then show "\<exists>evs. trace (env s') = trace (env s) @ evs \<and> (\<forall>ev \<in> set evs. loop_event ev)
           \<and> length (filter (\<lambda>ev. ev = Optimizer_step) evs) = 1"
    by (intro exI[of _ "[Zero_grad, Backward, Optimizer_step]
         @ (if (epoch + 1) mod 10 = 0
            then [Print (Epoch_loss (epoch + 1) ne
                    (torch_item lib (loss_of lib (similarity lib emb e) (similarity lib emb neg))))]
            else [])"]) simp
qed

lemma run_epochs_Inr:
  "run_epochs lib n ne adj f e es s = Some (Inr s') \<Longrightarrow>
     length (losses s') = length (losses s) + length es
     \<and> (\<exists>evs. trace (env s') = trace (env s) @ evs \<and> (\<forall>ev \<in> set evs. loop_event ev)
           \<and> length (filter (\<lambda>ev. ev = Optimizer_step) evs) = length es)"
proof (induction es arbitrary: s)
  case Nil
  then show ?case by simp
next
  case (Cons epoch es)
  from Cons.prems obtain s1 where
    b: "epoch_body lib n ne adj f e epoch s = Some (Inr s1)"
    and r: "run_epochs lib n ne adj f e es s1 = Some (Inr s')"
    by (auto split: option.splits sum.splits)
  from epoch_body_trace[OF b] obtain evs1 where
    l1: "length (losses s1) = Suc (length (losses s))"
    and t1: "trace (env s1) = trace (env s) @ evs1" "\<forall>ev \<in> set evs1. loop_event ev"
      "length (filter (\<lambda>ev. ev = Optimizer_step) evs1) = 1"
    by blast
  from Cons.IH[OF r] obtain evs2 where
    l2: "length (losses s') = length (losses s1) + length es"
    and t2: "trace (env s') = trace (env s1) @ evs2" "\<forall>ev \<in> set evs2. loop_event ev"
      "length (filter (\<lambda>ev. ev = Optimizer_step) evs2) = length es"
    by blast
  have "trace (env s') = trace (env s) @ (evs1 @ evs2)" using t1(1) t2(1) by simp
  moreover have "\<forall>ev \<in> set (evs1 @ evs2). loop_event ev" using t1(2) t2(2) by auto
  moreover have "length (filter (\<lambda>ev. ev = Optimizer_step) (evs1 @ evs2)) = length (epoch # es)"
    using t1(3) t2(3) by simp
  ultimately show ?case using l1 l2 by (intro conjI exI[of _ "evs1 @ evs2"]) simp_all
qed

lemma run_epochs_Inl:
  "run_epochs lib n ne adj f e es s = Some (Inl (er, w)) \<Longrightarrow>
     n = 0 \<and> (\<exists>evs. trace w = trace (env s) @ evs \<and> (\<forall>ev \<in> set evs. loop_event ev))"
proof (induction es arbitrary: s)
  case Nil
  then show ?case by simp
next
  case (Cons epoch es)
  show ?case
  proof (cases "epoch_body lib n ne adj f e epoch s")
    case None
    with Cons.prems show ?thesis by simp
  next
    case (Some res)
    show ?thesis
    proof (cases res)
      case (Inl ew)
      with Some Cons.prems have b: "epoch_body lib n ne adj f e epoch s = Some (Inl (er, w))"
        by simp
      from epoch_body_Inl[OF b] show ?thesis
        by (intro conjI exI[of _ "[Zero_grad]"]) simp_all
    next
      case (Inr s1)
      with Some Cons.prems have r: "run_epochs lib n ne adj f e es s1 = Some (Inl (er, w))"
        by simp
      from Some Inr have b: "epoch_body lib n ne adj f e epoch s = Some (Inr s1)" by simp
      from epoch_body_trace(2)[OF b] obtain evs1 where
        t1: "trace (env s1) = trace (env s) @ evs1" "\<forall>ev \<in> set evs1. loop_event ev"
        by blast
      from Cons.IH[OF r] obtain evs2 where
        n: "n = 0" and t2: "trace w = trace (env s1) @ evs2" "\<forall>ev \<in> set evs2. loop_event ev"
        by blast
      have "trace w = trace (env s) @ (evs1 @ evs2)" using t1(1) t2(1) by simp
      moreover have "\<forall>ev \<in> set (evs1 @ evs2). loop_event ev" using t1(2) t2(2) by auto
      ultimately show ?thesis using n by blast
    qed
  qed
qed

lemma after_training_result:
  "losses s \<noteq> [] \<Longrightarrow>
     \<exists>emb biases r2 w6. after_training lib n f e G s = (Inr (Value (Value emb, biases, G)), r2, w6)
        \<and> trace w6 = trace (env s) @ [Print (Training_completed_final_loss (last (losses s))),
                                       Savefig ''training_loss.png'']"
  "losses s = [] \<Longrightarrow>
     \<exists>r2 w4. after_training lib n f e G s = (Inl IndexError, r2, w4) \<and> trace w4 = trace (env s)"
  by (simp_all add: after_training_def Let_def split_def)

lemma train_embeddings_edgeless:
  assumes "generate_uav_network n 1000 (print Start_training w) = ((p, adj, f, G), w2)"
    and "edge_index_of adj n = []"
  shows "train_embeddings lib n ne r w = Some (Inr PyNone, r, print Error_no_edges w2)"
  using assms by (simp add: train_embeddings_def Let_def)

lemma train_embeddings_edges:
  assumes "generate_uav_network n 1000 (print Start_training w) = ((p, adj, f, G), w2)"
    and "edge_index_of adj n \<noteq> []"
  shows "train_embeddings lib n ne r w =
     (case run_epochs lib n ne adj (torch_tensor lib (fit_transform f)) (edge_index_of adj n)
             [0..<ne]
             \<lparr>model = train_mode (fst (GraphSAGE_init lib 3 32 16 r)),
              optimizer = optim_Adam lib (fst (GraphSAGE_init lib 3 32 16 r)) 0.01,
              losses = [], torch_random = snd (GraphSAGE_init lib 3 32 16 r),
              env = print Device w2\<rparr> of
        None \<Rightarrow> None
      | Some (Inl (e, we)) \<Rightarrow> Some (Inl e, snd (GraphSAGE_init lib 3 32 16 r), we)
      | Some (Inr s) \<Rightarrow>
          Some (after_training lib n (torch_tensor lib (fit_transform f)) (edge_index_of adj n) G s))"
  unfolding train_embeddings_def Let_def assms(1) using assms(2)
  by (simp add: split_def cong: option.case_cong sum.case_cong)

lemma generate_trace_eq:
  assumes "generate_uav_network n a w = (x, w2)"
  shows "trace w2 = trace w @ [Print (Generate_nodes n), Print Average_degree,
                               Print Connect_components]"
  using generate_trace[of n a w] assms by simp

text \<open>
  Claim C9. When the generated graph has no edge, \<^verbatim>\<open>train_embeddings\<close> reports it and
  returns \<^verbatim>\<open>None\<close> at once: the trace gains the start line, the three lines of the
  generator and the error line and nothing else, so no epoch runs, no gradient is
  computed and no optimizer step is taken, and the torch generator is returned
  untouched, as no model is built. The program then reports an error and stops: its
  whole trace has no training event and no table is written.
\<close>

theorem edgeless_graph_no_training:
  assumes "generate_uav_network num_nodes 1000 (print Start_training w)
             = ((positions, adjacency, features, G), w2)"
    and "edge_index_of adjacency num_nodes = []"
  shows "train_embeddings lib num_nodes num_epochs r w
           = Some (Inr PyNone, r, print Error_no_edges w2)
       \<and> trace (print Error_no_edges w2)
           = trace w @ [Print Start_training, Print (Generate_nodes num_nodes),
                        Print Average_degree, Print Connect_components, Print Error_no_edges]
       \<and> (w = print Banner \<lparr>np_random = g, trace = []\<rparr> \<longrightarrow>
            program lib num_nodes num_epochs g r
              = Some (handler TypeError (print Error_no_edges w2))
          \<and> trace (handler TypeError (print Error_no_edges w2))
              = [Print Banner, Print Start_training, Print (Generate_nodes num_nodes),
                 Print Average_degree, Print Connect_components, Print Error_no_edges,
                 Print (Error_during_training TypeError), Print Traceback]
          \<and> filter training_event (trace (handler TypeError (print Error_no_edges w2))) = []
          \<and> To_csv ''outputs/emb_16.csv''
               \<notin> set (trace (handler TypeError (print Error_no_edges w2))))"
proof -
  have t: "train_embeddings lib num_nodes num_epochs r w
           = Some (Inr PyNone, r, print Error_no_edges w2)"
    using assms by (rule train_embeddings_edgeless)
  have tr: "trace w2 = trace w @ [Print Start_training, Print (Generate_nodes num_nodes),
                        Print Average_degree, Print Connect_components]"
    using generate_trace_eq[OF assms(1)] by simp
  have p: "program lib num_nodes num_epochs g r
              = Some (handler TypeError (print Error_no_edges w2))"
    if "w = print Banner \<lparr>np_random = g, trace = []\<rparr>"
    using t unfolding that by (simp add: program_def Let_def)
  have q: "trace (handler TypeError (print Error_no_edges w2))
              = [Print Banner, Print Start_training, Print (Generate_nodes num_nodes),
                 Print Average_degree, Print Connect_components, Print Error_no_edges,
                 Print (Error_during_training TypeError), Print Traceback]"
    if "w = print Banner \<lparr>np_random = g, trace = []\<rparr>"
    using tr unfolding that by (simp add: handler_def)
  have f: "filter training_event (trace (handler TypeError (print Error_no_edges w2))) = []
          \<and> To_csv ''outputs/emb_16.csv''
               \<notin> set (trace (handler TypeError (print Error_no_edges w2)))"
    if "w = print Banner \<lparr>np_random = g, trace = []\<rparr>"
    unfolding q[OF that] by simp
  from t tr p q f show ?thesis by simp
qed

lemma rand_2:
  "rand 2 3 (0 ## 0 ## 0 ## 4503599627370496 ## 0 ## 0 ## s) = ([[0, 0, 0], [1 / 2, 0, 0]], s)"
proof -
  have "rand (Suc (Suc 0)) 3 (0 ## 0 ## 0 ## 4503599627370496 ## 0 ## 0 ## s)
          = ([[0, 0, 0], [1 / 2, 0, 0]], s)"
    by (simp add: numeral_3_eq_3 random_sample_def)
  then show ?thesis by (simp only: numeral_2_eq_2)
qed

lemma feats_2:
  "sample_features 2 (sconst 0) = ([[1 / 2, 3 / 10, 0], [1 / 2, 3 / 10, 0]], sconst 0)"
proof -
  have "sample_features (Suc (Suc 0)) (sconst 0)
          = ([[1 / 2, 3 / 10, 0], [1 / 2, 3 / 10, 0]], sconst 0)"
    by (simp add: uniform_def random_sample_def)
  then show ?thesis by (simp only: numeral_2_eq_2)
qed

lemma adj_2: "build_adjacency [[0, 0, 0], [500, 0, 0]] 2 = [[0, 0], [0, 0]]"
  by (simp add: build_adjacency_def adjacency_inner_def link_if_close_def Let_def
      linalg_norm_def vsub_def communication_range_def set_entry_def sqrt_less_range
      numeral_2_eq_2 upt_conv_Cons)

lemma graph_2:
  "make_graph 2 [[0, 0, 0], [500, 0, 0]] [[0, 0], [0, 0]]
      [[1 / 2, 3 / 10, 0], [1 / 2, 3 / 10, 0]]
   = \<lparr>nodes = [(0, [0, 0, 0], [1 / 2, 3 / 10, 0]), (Suc 0, [500, 0, 0], [1 / 2, 3 / 10, 0])],
      edges = []\<rparr>"
  by (simp add: make_graph_def upt_conv_Cons numeral_2_eq_2)

lemma generate_2:
  "generate_uav_network 2 1000
      (print Start_training (print Banner
         \<lparr>np_random = 0 ## 0 ## 0 ## 4503599627370496 ## 0 ## 0 ## sconst 0, trace = []\<rparr>))
   = (([[0, 0, 0], [500, 0, 0]],
       [[0, 0], [0, 0]],
       [[1 / 2, 3 / 10, 0], [1 / 2, 3 / 10, 0]],
       \<lparr>nodes = [(0, [0, 0, 0], [1 / 2, 3 / 10, 0]), (Suc 0, [500, 0, 0], [1 / 2, 3 / 10, 0])],
        edges = []\<rparr>),
      \<lparr>np_random = sconst 0,
       trace = [Print Banner, Print Start_training, Print (Generate_nodes 2),
                Print Average_degree, Print Connect_components]\<rparr>)"
  by (simp add: generate_uav_network_def print_def rand_2 feats_2 adj_2 graph_2 Let_def)

lemma edges_2: "edge_index_of [[0, 0], [0, 0]] 2 = []"
  by (simp add: edge_index_of_def upt_conv_Cons numeral_2_eq_2)

theorem edgeless_graph_no_training_witness:
  "generate_uav_network 2 1000
      (print Start_training (print Banner
         \<lparr>np_random = 0 ## 0 ## 0 ## 4503599627370496 ## 0 ## 0 ## sconst 0, trace = []\<rparr>))
   = (([[0, 0, 0], [500, 0, 0]],
       [[0, 0], [0, 0]],
       [[1 / 2, 3 / 10, 0], [1 / 2, 3 / 10, 0]],
       \<lparr>nodes = [(0, [0, 0, 0], [1 / 2, 3 / 10, 0]), (Suc 0, [500, 0, 0], [1 / 2, 3 / 10, 0])],
        edges = []\<rparr>),
      \<lparr>np_random = sconst 0,
       trace = [Print Banner, Print Start_training, Print (Generate_nodes 2),
                Print Average_degree, Print Connect_components]\<rparr>)
   \<and> edge_index_of [[0, 0], [0, 0]] 2 = []
   \<and> program nan_lib 2 50 (0 ## 0 ## 0 ## 4503599627370496 ## 0 ## 0 ## sconst 0) ()
       = Some \<lparr>np_random = sconst 0,
               trace = [Print Banner, Print Start_training, Print (Generate_nodes 2),
                        Print Average_degree, Print Connect_components, Print Error_no_edges,
                        Print (Error_during_training TypeError), Print Traceback]\<rparr>"
proof -
  note A = edgeless_graph_no_training[OF generate_2 edges_2, of nan_lib 50 "()"
      "0 ## 0 ## 0 ## 4503599627370496 ## 0 ## 0 ## sconst 0"]
  from A have "program nan_lib 2 50 (0 ## 0 ## 0 ## 4503599627370496 ## 0 ## 0 ## sconst 0) ()
       = Some \<lparr>np_random = sconst 0,
               trace = [Print Banner, Print Start_training, Print (Generate_nodes 2),
                        Print Average_degree, Print Connect_components, Print Error_no_edges,
                        Print (Error_during_training TypeError), Print Traceback]\<rparr>"
    by (simp add: handler_def print_def)
  with generate_2 edges_2 show ?thesis by blast
qed

lemma edges_nodes: "edge_index_of adj n \<noteq> [] \<Longrightarrow> 0 < n"
  by (cases n) (simp_all add: edge_index_of_zero)

lemma train_embeddings_edges_result:
  assumes gen: "generate_uav_network n 1000 (print Start_training w) = ((p, adj, f, G), w2)"
    and edges: "edge_index_of adj n \<noteq> []"
    and ret: "train_embeddings lib n ne r w = Some (res, r', w')"
  shows "\<exists>evs fin.
           trace w' = trace w @ [Print Start_training, Print (Generate_nodes n),
                                 Print Average_degree, Print Connect_components, Print Device]
                        @ evs @ fin
         \<and> (\<forall>ev \<in> set evs. loop_event ev)
         \<and> length (filter (\<lambda>ev. ev = Optimizer_step) evs) = ne
         \<and> (0 < ne \<longrightarrow> (\<exists>emb biases x. res = Inr (Value (Value emb, biases, G))
                \<and> fin = [Print (Training_completed_final_loss x), Savefig ''training_loss.png'']))
         \<and> (ne = 0 \<longrightarrow> res = Inl IndexError \<and> fin = [])"
proof -
  let ?f = "torch_tensor lib (fit_transform f)"
  let ?e = "edge_index_of adj n"
  let ?s0 = "\<lparr>model = train_mode (fst (GraphSAGE_init lib 3 32 16 r)),
              optimizer = optim_Adam lib (fst (GraphSAGE_init lib 3 32 16 r)) 0.01,
              losses = [], torch_random = snd (GraphSAGE_init lib 3 32 16 r),
              env = print Device w2\<rparr>"
  have n: "0 < n" using edges by (rule edges_nodes)
  have t2: "trace w2 = trace w @ [Print Start_training, Print (Generate_nodes n),
                        Print Average_degree, Print Connect_components]"
    using generate_trace_eq[OF gen] by simp
  note unf = train_embeddings_edges[OF gen edges, of lib ne r]
  show ?thesis
  proof (cases "run_epochs lib n ne adj ?f ?e [0..<ne] ?s0")
    case None
    with unf ret show ?thesis by simp
  next
    case (Some out)
    show ?thesis
    proof (cases out)
      case (Inl ew)
      obtain er we where "ew = (er, we)" by (cases ew)
      with Some Inl have "run_epochs lib n ne adj ?f ?e [0..<ne] ?s0 = Some (Inl (er, we))"
        by simp
      from run_epochs_Inl[OF this] n show ?thesis by simp
    next
      case (Inr s)
      with Some have run: "run_epochs lib n ne adj ?f ?e [0..<ne] ?s0 = Some (Inr s)" by simp
      from run_epochs_Inr[OF run] obtain evs where
        l: "length (losses s) = ne"
        and tr: "trace (env s) = trace w2 @ [Print Device] @ evs"
        and le: "\<forall>ev \<in> set evs. loop_event ev"
        and st: "length (filter (\<lambda>ev. ev = Optimizer_step) evs) = ne"
        by auto
      from unf ret run have aft: "after_training lib n ?f ?e G s = (res, r', w')" by simp
      show ?thesis
      proof (cases "ne = 0")
        case True
        then have "losses s = []" using l by simp
        from after_training_result(2)[OF this, of lib n ?f ?e G] aft
        have "res = Inl IndexError" and "trace w' = trace (env s)" by auto
        then show ?thesis using True tr t2 le st
          by (intro exI[of _ evs] exI[of _ "[]"]) simp
      next
        case False
        then have "losses s \<noteq> []" using l by auto
        from after_training_result(1)[OF this, of lib n ?f ?e G] aft
        obtain emb biases where "res = Inr (Value (Value emb, biases, G))"
          and "trace w' = trace (env s) @ [Print (Training_completed_final_loss (last (losses s))),
                                       Savefig ''training_loss.png'']"
          by auto
        then show ?thesis using False tr t2 le st
          by (intro exI[of _ evs]
                exI[of _ "[Print (Training_completed_final_loss (last (losses s))),
                           Savefig ''training_loss.png'']"]) simp
      qed
    qed
  qed
qed

lemma loop_event_not_failed: "loop_event ev \<Longrightarrow> ev \<noteq> Print Training_failed"
  by (cases ev) auto

lemma train_embeddings_result:
  assumes ret: "train_embeddings lib n ne r w = Some (res, r', w')"
  shows "\<exists>evs. trace w' = trace w @ evs \<and> Print Training_failed \<notin> set evs"
    and "res = Inr (Value x) \<Longrightarrow> \<exists>emb biases G. x = (Value emb, biases, G)"
proof -
  obtain p adj f G w2 where
    gen: "generate_uav_network n 1000 (print Start_training w) = ((p, adj, f, G), w2)"
    by (metis prod.exhaust)
  have both: "(\<exists>evs. trace w' = trace w @ evs \<and> Print Training_failed \<notin> set evs)
            \<and> (res = Inr (Value x) \<longrightarrow> (\<exists>emb biases G. x = (Value emb, biases, G)))"
  proof (cases "edge_index_of adj n = []")
    case True
    from train_embeddings_edgeless[OF gen True, of lib ne r] ret
    have "res = Inr PyNone" and "w' = print Error_no_edges w2" by simp_all
    moreover have "trace w2 = trace w @ [Print Start_training, Print (Generate_nodes n),
                        Print Average_degree, Print Connect_components]"
      using generate_trace_eq[OF gen] by simp
    ultimately show ?thesis by simp
  next
    case False
    from train_embeddings_edges_result[OF gen False ret] obtain evs fin where
      tr: "trace w' = trace w @ [Print Start_training, Print (Generate_nodes n),
                                 Print Average_degree, Print Connect_components, Print Device]
                        @ evs @ fin"
      and le: "\<forall>ev \<in> set evs. loop_event ev"
      and pos: "0 < ne \<longrightarrow> (\<exists>emb biases y. res = Inr (Value (Value emb, biases, G))
                \<and> fin = [Print (Training_completed_final_loss y), Savefig ''training_loss.png''])"
      and zero: "ne = 0 \<longrightarrow> res = Inl IndexError \<and> fin = []"
      by blast
    have nf: "Print Training_failed \<notin> set evs" using le loop_event_not_failed by blast
    have fin: "Print Training_failed \<notin> set fin" using pos zero by (cases "ne = 0") auto
    have a: "\<exists>evs. trace w' = trace w @ evs \<and> Print Training_failed \<notin> set evs"
      using tr nf fin
      by (intro exI[of _ "[Print Start_training, Print (Generate_nodes n),
                                 Print Average_degree, Print Connect_components, Print Device]
                        @ evs @ fin"]) simp
    have b: "res = Inr (Value x) \<longrightarrow> (\<exists>emb biases G. x = (Value emb, biases, G))"
      using pos zero by (cases "ne = 0") auto
    from a b show ?thesis by blast
  qed
  from both show "\<exists>evs. trace w' = trace w @ evs \<and> Print Training_failed \<notin> set evs" by blast
  from both show "res = Inr (Value x) \<Longrightarrow> \<exists>emb biases G. x = (Value emb, biases, G)" by blast
qed

lemma program_never_failed:
  assumes "program lib n ne g r = Some w'"
  shows "Print Training_failed \<notin> set (trace w')"
proof -
  let ?w0 = "print Banner \<lparr>np_random = g, trace = []\<rparr>"
  from assms obtain res r' w1 where
    ret: "train_embeddings lib n ne r ?w0 = Some (res, r', w1)"
    by (cases "train_embeddings lib n ne r ?w0") (auto simp: program_def Let_def)
  from train_embeddings_result(1)[OF ret] obtain evs where
    tr: "trace w1 = [Print Banner] @ evs" and nf: "Print Training_failed \<notin> set evs"
    by auto
  have q: "Print Training_failed \<notin> set (trace w1)" using tr nf by simp
  show ?thesis
  proof (cases res)
    case (Inl e)
    with assms ret have "w' = handler e w1" by (simp add: program_def Let_def)
    with q show ?thesis by (simp add: handler_def)
  next
    case (Inr v)
    show ?thesis
    proof (cases v)
      case PyNone
      with Inr assms ret have "w' = handler TypeError w1" by (simp add: program_def Let_def)
      with q show ?thesis by (simp add: handler_def)
    next
      case (Value x)
      with Inr train_embeddings_result(2)[OF ret, of x] obtain emb biases G where
        x: "x = (Value emb, biases, G)" by blast
      with Inr Value assms ret
      have "w' = print Training_completed (visualize_embeddings emb G (save_embeddings emb biases w1))"
        by (simp add: program_def Let_def)
      with q show ?thesis by (simp add: visualize_embeddings_def save_embeddings_def)
    qed
  qed
qed

subsection \<open>A run of two epochs in which every loss is NaN\<close>

lemma rand_3_tail:
  "rand 3 3 (0 ## 0 ## 0 ## 4503599627370496 ## 0 ## 0 ## 1125899906842624 ## 0 ## 0 ## s)
     = ([[0, 0, 0], [1 / 2, 0, 0], [1 / 8, 0, 0]], s)"
  by (simp add: numeral_3_eq_3 random_sample_def)

lemma feats_3_tail:
  "sample_features 3 (0 ## 0 ## 0 ## 0 ## 0 ## 0 ## 0 ## 0 ## 0 ## s)
     = ([[1 / 2, 3 / 10, 0], [1 / 2, 3 / 10, 0], [1 / 2, 3 / 10, 0]], s)"
  by (simp add: numeral_3_eq_3 uniform_def random_sample_def)

lemma generate_3_tail:
  "generate_uav_network 3 1000
      (print Start_training
        \<lparr>np_random = 0 ## 0 ## 0 ## 4503599627370496 ## 0 ## 0 ## 1125899906842624 ## 0 ## 0
                       ## 0 ## 0 ## 0 ## 0 ## 0 ## 0 ## 0 ## 0 ## 0 ## s,
         trace = []\<rparr>)
   = (([[0, 0, 0], [500, 0, 0], [125, 0, 0]],
       [[0, 0, 1], [0, 0, 0], [1, 0, 0]],
       [[1 / 2, 3 / 10, 0], [1 / 2, 3 / 10, 0], [1 / 2, 3 / 10, 0]],
       \<lparr>nodes = [(0, [0, 0, 0], [1 / 2, 3 / 10, 0]), (Suc 0, [500, 0, 0], [1 / 2, 3 / 10, 0]),
                 (2, [125, 0, 0], [1 / 2, 3 / 10, 0])],
        edges = [(0, 2, 1)]\<rparr>),
      \<lparr>np_random = s,
       trace = [Print Start_training, Print (Generate_nodes 3), Print Average_degree,
                Print Connect_components]\<rparr>)"
  by (simp add: generate_uav_network_def print_def rand_3_tail feats_3_tail adj_3 graph_3 Let_def)

lemma edges_3: "edge_index_of [[0, 0, 1], [0, 0, 0], [1, 0, 0]] 3 = [(0, 2), (2, 0)]"
  by (simp add: edge_index_of_def upt_conv_Cons numeral_3_eq_3)

lemma neg_3:
  "neg_sampling [[0, 0, 1], [0, 0, 0], [1, 0, 0]] 3 (Suc (Suc 0)) (0 ## Suc 0 ## 0 ## Suc 0 ## s)
     = Some (Inr ([(0, Suc 0), (0, Suc 0)], s))"
  by (simp add: neg_sampling_def neg_sampling_loop.simps randint_def)

lemma nan_epoch:
  "epoch_body nan_lib 3 2 [[0, 0, 1], [0, 0, 0], [1, 0, 0]] () [(0, 2), (2, 0)] epoch
      \<lparr>model = m, optimizer = (), losses = ls, torch_random = (),
       env = \<lparr>np_random = 0 ## Suc 0 ## 0 ## Suc 0 ## s, trace = t\<rparr>\<rparr>
   = Some (Inr \<lparr>model = m, optimizer = (), losses = ls @ [NaN], torch_random = (),
                env = \<lparr>np_random = s,
                       trace = t @ [Zero_grad, Backward, Optimizer_step]
                                 @ (if (epoch + 1) mod 10 = 0
                                    then [Print (Epoch_loss (epoch + 1) 2 NaN)] else [])\<rparr>\<rparr>)"
  by (simp add: epoch_body_def Let_def neg_3 emit_def print_def epoch_finish_def nan_lib_def
      forward_def)

lemma nan_loop:
  "run_epochs nan_lib 3 2 [[0, 0, 1], [0, 0, 0], [1, 0, 0]] () [(0, 2), (2, 0)] [0..<2]
      \<lparr>model = m, optimizer = (), losses = [], torch_random = (),
       env = \<lparr>np_random = 0 ## Suc 0 ## 0 ## Suc 0 ## 0 ## Suc 0 ## 0 ## Suc 0 ## sconst 0,
              trace = t\<rparr>\<rparr>
    = Some (Inr \<lparr>model = m, optimizer = (), losses = [NaN, NaN], torch_random = (),
                 env = \<lparr>np_random = sconst 0,
                        trace = t @ [Zero_grad, Backward, Optimizer_step,
                                     Zero_grad, Backward, Optimizer_step]\<rparr>\<rparr>)"
proof -
  have e2: "[0..<2] = [0, Suc 0]" by (simp add: upt_conv_Cons numeral_2_eq_2)
  show ?thesis unfolding e2 by (simp add: nan_epoch)
qed

lemma nan_run:
  "train_embeddings nan_lib 3 2 ()
      \<lparr>np_random = 0 ## 0 ## 0 ## 4503599627370496 ## 0 ## 0 ## 1125899906842624 ## 0 ## 0
                     ## 0 ## 0 ## 0 ## 0 ## 0 ## 0 ## 0 ## 0 ## 0
                     ## 0 ## 1 ## 0 ## 1 ## 0 ## 1 ## 0 ## 1 ## sconst 0,
       trace = []\<rparr>
   = Some (Inr (Value (Value (), [0, 0, 0],
                  \<lparr>nodes = [(0, [0, 0, 0], [1 / 2, 3 / 10, 0]),
                            (Suc 0, [500, 0, 0], [1 / 2, 3 / 10, 0]),
                            (2, [125, 0, 0], [1 / 2, 3 / 10, 0])],
                   edges = [(0, 2, 1)]\<rparr>)),
           (),
           \<lparr>np_random = sconst 0,
            trace = [Print Start_training, Print (Generate_nodes 3), Print Average_degree,
                     Print Connect_components, Print Device,
                     Zero_grad, Backward, Optimizer_step,
                     Zero_grad, Backward, Optimizer_step,
                     Print (Training_completed_final_loss NaN),
                     Savefig ''training_loss.png'']\<rparr>)"
proof -
  have ne: "edge_index_of [[0, 0, 1], [0, 0, 0], [1, 0, 0]] 3 \<noteq> []"
    by (simp add: edges_3)
  have aft: "after_training nan_lib 3 () [(0, 2), (2, 0)] G
      \<lparr>model = m, optimizer = (), losses = [NaN, NaN], torch_random = (),
       env = \<lparr>np_random = sconst 0, trace = t\<rparr>\<rparr>
    = (Inr (Value (Value (), [0, 0, 0], G)), (),
       \<lparr>np_random = sconst 0,
        trace = t @ [Print (Training_completed_final_loss NaN), Savefig ''training_loss.png'']\<rparr>)"
    for G m t
    by (simp add: after_training_def nan_lib_def forward_def Let_def print_def emit_def
        numeral_3_eq_3)
  show ?thesis
    unfolding train_embeddings_edges[OF generate_3_tail ne]
    by (simp add: edges_3 print_def nan_loop aft)
qed

section \<open>Proofs: the loss\<close>











subsection \<open>Non-finite losses\<close>

text \<open>
  Claim C8, as amended. The training loop does not look at the value of the loss. In
  every epoch whose negative sampling returns, the value read off the loss, finite or
  not, is appended to the recorded losses, and \<^verbatim>\<open>backward\<close> and the optimizer step
  are applied. A loop that returns has recorded one loss and taken one optimizer step
  for each epoch. On a graph with edges and with at least one epoch, a call of
  \<^verbatim>\<open>train_embeddings\<close> that returns has taken all its optimizer steps and returns the
  triple with the embeddings: no condition for non-finite numbers exists.
\<close>

theorem no_finiteness_check:
  "(neg_sampling adjacency num_nodes (length edge_index) (np_random (env s))
        = Some (Inr (neg_samples, g)) \<longrightarrow>
      (let m1 = optim_zero_grad lib (optimizer s) (model s);
           embeddings = fst (forward lib m1 features edge_index (torch_random s));
           loss = loss_of lib (similarity lib embeddings edge_index)
                    (similarity lib embeddings neg_samples)
       in \<exists>s'. epoch_body lib num_nodes num_epochs adjacency features edge_index epoch s
                  = Some (Inr s')
            \<and> losses s' = losses s @ [torch_item lib loss]
            \<and> model s' = snd (optim_step lib (optimizer s) (torch_backward lib loss m1))
            \<and> trace (env s')
                 = trace (env s) @ [Zero_grad, Backward, Optimizer_step]
                     @ (if (epoch + 1) mod 10 = 0
                        then [Print (Epoch_loss (epoch + 1) num_epochs (torch_item lib loss))]
                        else [])))
   \<and> (run_epochs lib num_nodes num_epochs adjacency features edge_index [0..<num_epochs] s
         = Some (Inr s'') \<longrightarrow>
        length (losses s'') = length (losses s) + num_epochs
      \<and> (\<exists>evs. trace (env s'') = trace (env s) @ evs
            \<and> length (filter (\<lambda>ev. ev = Optimizer_step) evs) = num_epochs))
   \<and> (generate_uav_network num_nodes 1000 (print Start_training w)
          = ((positions, adjacency, raw_features, G), w2)
       \<and> edge_index_of adjacency num_nodes \<noteq> [] \<and> 0 < num_epochs
       \<and> train_embeddings lib num_nodes num_epochs r w = Some (res, r', w') \<longrightarrow>
        (\<exists>emb biases. res = Inr (Value (Value emb, biases, G)))
      \<and> (\<exists>evs. trace w' = trace w @ evs
            \<and> length (filter (\<lambda>ev. ev = Optimizer_step) evs) = num_epochs))"
proof -
  have a: "let m1 = optim_zero_grad lib (optimizer s) (model s);
           embeddings = fst (forward lib m1 features edge_index (torch_random s));
           loss = loss_of lib (similarity lib embeddings edge_index)
                    (similarity lib embeddings neg_samples)
       in \<exists>s'. epoch_body lib num_nodes num_epochs adjacency features edge_index epoch s
                  = Some (Inr s')
            \<and> losses s' = losses s @ [torch_item lib loss]
            \<and> model s' = snd (optim_step lib (optimizer s) (torch_backward lib loss m1))
            \<and> trace (env s')
                 = trace (env s) @ [Zero_grad, Backward, Optimizer_step]
                     @ (if (epoch + 1) mod 10 = 0
                        then [Print (Epoch_loss (epoch + 1) num_epochs (torch_item lib loss))]
                        else [])"
    if "neg_sampling adjacency num_nodes (length edge_index) (np_random (env s))
        = Some (Inr (neg_samples, g))"
    unfolding Let_def epoch_body_returns[OF that]
    by (simp add: epoch_finish_fields)
  have b: "length (losses s'') = length (losses s) + num_epochs
      \<and> (\<exists>evs. trace (env s'') = trace (env s) @ evs
            \<and> length (filter (\<lambda>ev. ev = Optimizer_step) evs) = num_epochs)"
    if "run_epochs lib num_nodes num_epochs adjacency features edge_index [0..<num_epochs] s
         = Some (Inr s'')"
    using run_epochs_Inr[OF that] by auto
  have c: "(\<exists>emb biases. res = Inr (Value (Value emb, biases, G)))
      \<and> (\<exists>evs. trace w' = trace w @ evs
            \<and> length (filter (\<lambda>ev. ev = Optimizer_step) evs) = num_epochs)"
    if "generate_uav_network num_nodes 1000 (print Start_training w)
          = ((positions, adjacency, raw_features, G), w2)
       \<and> edge_index_of adjacency num_nodes \<noteq> [] \<and> 0 < num_epochs
       \<and> train_embeddings lib num_nodes num_epochs r w = Some (res, r', w')"
  proof -
    from that have gen: "generate_uav_network num_nodes 1000 (print Start_training w)
          = ((positions, adjacency, raw_features, G), w2)"
      and edges: "edge_index_of adjacency num_nodes \<noteq> []" and pos: "0 < num_epochs"
      and ret: "train_embeddings lib num_nodes num_epochs r w = Some (res, r', w')"
      by simp_all
    from train_embeddings_edges_result[OF gen edges ret] pos obtain evs emb biases x where
      tr: "trace w' = trace w @ [Print Start_training, Print (Generate_nodes num_nodes),
                                 Print Average_degree, Print Connect_components, Print Device]
                        @ evs @ [Print (Training_completed_final_loss x),
                                 Savefig ''training_loss.png'']"
      and st: "length (filter (\<lambda>ev. ev = Optimizer_step) evs) = num_epochs"
      and res: "res = Inr (Value (Value emb, biases, G))"
      by auto
    have "\<exists>evs. trace w' = trace w @ evs
            \<and> length (filter (\<lambda>ev. ev = Optimizer_step) evs) = num_epochs"
      using tr st
      by (intro exI[of _ "[Print Start_training, Print (Generate_nodes num_nodes),
                                 Print Average_degree, Print Connect_components, Print Device]
                        @ evs @ [Print (Training_completed_final_loss x),
                                 Savefig ''training_loss.png'']"]) simp
    with res show ?thesis by blast
  qed
  from a b c show ?thesis by blast
qed

theorem no_finiteness_check_witness:
  "neg_sampling [[0, 0, 1], [0, 0, 0], [1, 0, 0]] 3 (length [(0 :: nat, 2 :: nat), (2, 0)])
      (0 ## Suc 0 ## 0 ## Suc 0 ## 0 ## Suc 0 ## 0 ## Suc 0 ## sconst 0)
     = Some (Inr ([(0, Suc 0), (0, Suc 0)], 0 ## Suc 0 ## 0 ## Suc 0 ## sconst 0))
   \<and> (\<exists>s'. epoch_body nan_lib 3 2 [[0, 0, 1], [0, 0, 0], [1, 0, 0]] () [(0, 2), (2, 0)] 0
              \<lparr>model = \<lparr>conv1 = (), conv2 = (), training = True\<rparr>, optimizer = (),
               losses = [], torch_random = (),
               env = \<lparr>np_random = 0 ## Suc 0 ## 0 ## Suc 0 ## 0 ## Suc 0 ## 0 ## Suc 0 ## sconst 0,
                      trace = []\<rparr>\<rparr>
            = Some (Inr s')
          \<and> losses s' = [NaN]
          \<and> trace (env s') = [Zero_grad, Backward, Optimizer_step])
   \<and> \<not> isfinite NaN
   \<and> run_epochs nan_lib 3 2 [[0, 0, 1], [0, 0, 0], [1, 0, 0]] () [(0, 2), (2, 0)] [0..<2]
          \<lparr>model = \<lparr>conv1 = (), conv2 = (), training = True\<rparr>, optimizer = (),
           losses = [], torch_random = (),
           env = \<lparr>np_random = 0 ## Suc 0 ## 0 ## Suc 0 ## 0 ## Suc 0 ## 0 ## Suc 0 ## sconst 0,
                  trace = []\<rparr>\<rparr>
       = Some (Inr \<lparr>model = \<lparr>conv1 = (), conv2 = (), training = True\<rparr>, optimizer = (),
                    losses = [NaN, NaN], torch_random = (),
                    env = \<lparr>np_random = sconst 0,
                           trace = [Zero_grad, Backward, Optimizer_step,
                                    Zero_grad, Backward, Optimizer_step]\<rparr>\<rparr>)
   \<and> length [NaN, NaN] = length ([] :: pyfloat list) + 2
   \<and> edge_index_of [[0, 0, 1], [0, 0, 0], [1, 0, 0]] 3 \<noteq> []
   \<and> (0 :: nat) < 2
   \<and> (\<exists>emb biases G r' w'.
         train_embeddings nan_lib 3 2 ()
            \<lparr>np_random = 0 ## 0 ## 0 ## 4503599627370496 ## 0 ## 0 ## 1125899906842624 ## 0 ## 0
                           ## 0 ## 0 ## 0 ## 0 ## 0 ## 0 ## 0 ## 0 ## 0
                           ## 0 ## 1 ## 0 ## 1 ## 0 ## 1 ## 0 ## 1 ## sconst 0,
             trace = []\<rparr>
           = Some (Inr (Value (Value emb, biases, G)), r', w'))"
proof -
  let ?A = "[[0, 0, 1], [0, 0, 0], [1, 0, 0 :: real]]"
  let ?E = "[(0 :: nat, 2 :: nat), (2, 0)]"
  let ?m = "\<lparr>conv1 = (), conv2 = (), training = True\<rparr>"
  let ?s = "\<lparr>model = ?m, optimizer = (), losses = [], torch_random = (),
             env = \<lparr>np_random = 0 ## Suc 0 ## 0 ## Suc 0 ## 0 ## Suc 0 ## 0 ## Suc 0 ## sconst 0,
                    trace = []\<rparr>\<rparr>"
  let ?s2 = "\<lparr>model = ?m, optimizer = (), losses = [NaN, NaN], torch_random = (),
              env = \<lparr>np_random = sconst 0,
                     trace = [Zero_grad, Backward, Optimizer_step,
                              Zero_grad, Backward, Optimizer_step]\<rparr>\<rparr>"
  let ?w = "\<lparr>np_random = 0 ## 0 ## 0 ## 4503599627370496 ## 0 ## 0 ## 1125899906842624 ## 0 ## 0
                           ## 0 ## 0 ## 0 ## 0 ## 0 ## 0 ## 0 ## 0 ## 0
                           ## 0 ## 1 ## 0 ## 1 ## 0 ## 1 ## 0 ## 1 ## sconst 0,
             trace = []\<rparr>"
  have ns: "neg_sampling ?A 3 (length ?E) (np_random (env ?s))
              = Some (Inr ([(0, Suc 0), (0, Suc 0)], 0 ## Suc 0 ## 0 ## Suc 0 ## sconst 0))"
    by (simp add: neg_3)
  have run: "run_epochs nan_lib 3 2 ?A () ?E [0..<2] ?s = Some (Inr ?s2)"
    using nan_loop[of ?m "[]"] by simp
  have ne: "edge_index_of ?A 3 \<noteq> []" by (simp add: edges_3)
  have item: "torch_item nan_lib x = NaN" for x by (simp add: nan_lib_def)
  note T = no_finiteness_check[where adjacency = ?A and num_nodes = 3 and edge_index = ?E
      and s = ?s and neg_samples = "[(0, Suc 0), (0, Suc 0)]"
      and g = "0 ## Suc 0 ## 0 ## Suc 0 ## sconst 0" and lib = nan_lib and features = "()"
      and num_epochs = 2 and epoch = 0, THEN conjunct1, THEN mp, OF ns]
  have ep: "\<exists>s'. epoch_body nan_lib 3 2 ?A () ?E 0 ?s = Some (Inr s')
          \<and> losses s' = [NaN]
          \<and> trace (env s') = [Zero_grad, Backward, Optimizer_step]"
    using T by (auto simp: Let_def item)
  have tr: "\<exists>emb biases G r' w'. train_embeddings nan_lib 3 2 () ?w
           = Some (Inr (Value (Value emb, biases, G)), r', w')"
    using nan_run by blast
  from ns ep run ne tr show ?thesis by simp
qed

text \<open>
  Claim C8 as stated fails: with a library in which the loss of every epoch reads as
  NaN, \<^verbatim>\<open>train_embeddings\<close> on a graph of three nodes and one edge runs its two
  epochs, takes both optimizer steps, reports NaN as the final loss and returns the
  embeddings. Nothing is detected or surfaced.
\<close>

theorem nonfinite_loss_counterexample:
  "\<not> isfinite (torch_item nan_lib ())
   \<and> train_embeddings nan_lib 3 2 ()
      \<lparr>np_random = 0 ## 0 ## 0 ## 4503599627370496 ## 0 ## 0 ## 1125899906842624 ## 0 ## 0
                     ## 0 ## 0 ## 0 ## 0 ## 0 ## 0 ## 0 ## 0 ## 0
                     ## 0 ## 1 ## 0 ## 1 ## 0 ## 1 ## 0 ## 1 ## sconst 0,
       trace = []\<rparr>
   = Some (Inr (Value (Value (), [0, 0, 0],
                  \<lparr>nodes = [(0, [0, 0, 0], [1 / 2, 3 / 10, 0]),
                            (Suc 0, [500, 0, 0], [1 / 2, 3 / 10, 0]),
                            (2, [125, 0, 0], [1 / 2, 3 / 10, 0])],
                   edges = [(0, 2, 1)]\<rparr>)),
           (),
           \<lparr>np_random = sconst 0,
            trace = [Print Start_training, Print (Generate_nodes 3), Print Average_degree,
                     Print Connect_components, Print Device,
                     Zero_grad, Backward, Optimizer_step,
                     Zero_grad, Backward, Optimizer_step,
                     Print (Training_completed_final_loss NaN),
                     Savefig ''training_loss.png'']\<rparr>)"
proof -
  have "\<not> isfinite (torch_item nan_lib ())" by (simp add: nan_lib_def)
  with nan_run show ?thesis by blast
qed

subsection \<open>The result \<^verbatim>\<open>None\<close> and the caller\<close>

text \<open>
  Claim C10. On a graph without edges \<^verbatim>\<open>train_embeddings\<close> returns the single value
  \<^verbatim>\<open>None\<close>; the program's unpacking of it raises TypeError, which the handler of
  the \<^verbatim>\<open>try\<close> block reports. Whenever \<^verbatim>\<open>train_embeddings\<close> returns something
  other than \<^verbatim>\<open>None\<close>, it is a triple whose first component is not \<^verbatim>\<open>None\<close>.
  So the branch that prints the failure message is never taken: no run of the program,
  for any library, size, epoch count and random draws, prints it. The script itself is
  the program with 30 nodes and 50 epochs.
\<close>

theorem none_result_unpacking:
  "(generate_uav_network num_nodes 1000
        (print Start_training (print Banner \<lparr>np_random = g, trace = []\<rparr>))
      = ((positions, adjacency, features, G), w2)
    \<and> edge_index_of adjacency num_nodes = [] \<longrightarrow>
      train_embeddings lib num_nodes num_epochs r (print Banner \<lparr>np_random = g, trace = []\<rparr>)
        = Some (Inr PyNone, r, print Error_no_edges w2)
    \<and> program lib num_nodes num_epochs g r
        = Some (print Traceback (print (Error_during_training TypeError)
                  (print Error_no_edges w2))))
   \<and> (train_embeddings lib n ne r w = Some (Inr (Value x), r', w') \<longrightarrow>
        (\<exists>emb biases G'. x = (Value emb, biases, G')))
   \<and> (program lib num_nodes num_epochs g r = Some w'' \<longrightarrow>
        Print Training_failed \<notin> set (trace w''))
   \<and> main lib g r = program lib 30 50 g r"
proof -
  have a: "train_embeddings lib num_nodes num_epochs r (print Banner \<lparr>np_random = g, trace = []\<rparr>)
        = Some (Inr PyNone, r, print Error_no_edges w2)
    \<and> program lib num_nodes num_epochs g r
        = Some (print Traceback (print (Error_during_training TypeError)
                  (print Error_no_edges w2)))"
    if "generate_uav_network num_nodes 1000
        (print Start_training (print Banner \<lparr>np_random = g, trace = []\<rparr>))
      = ((positions, adjacency, features, G), w2)
    \<and> edge_index_of adjacency num_nodes = []"
  proof -
    from that have gen: "generate_uav_network num_nodes 1000
        (print Start_training (print Banner \<lparr>np_random = g, trace = []\<rparr>))
      = ((positions, adjacency, features, G), w2)"
      and ed: "edge_index_of adjacency num_nodes = []"
      by simp_all
    have t: "train_embeddings lib num_nodes num_epochs r
          (print Banner \<lparr>np_random = g, trace = []\<rparr>)
        = Some (Inr PyNone, r, print Error_no_edges w2)"
      using gen ed by (rule train_embeddings_edgeless)
    then show ?thesis by (simp add: program_def Let_def handler_def)
  qed
  have b: "\<exists>emb biases G'. x = (Value emb, biases, G')"
    if "train_embeddings lib n ne r w = Some (Inr (Value x), r', w')"
    using train_embeddings_result(2)[OF that] by simp
  have c: "Print Training_failed \<notin> set (trace w'')"
    if "program lib num_nodes num_epochs g r = Some w''"
    using that by (rule program_never_failed)
  have d: "main lib g r = program lib 30 50 g r" by (simp add: main_def)
  from a b c d show ?thesis by blast
qed

theorem none_result_unpacking_witness:
  "generate_uav_network 2 1000
      (print Start_training (print Banner
         \<lparr>np_random = 0 ## 0 ## 0 ## 4503599627370496 ## 0 ## 0 ## sconst 0, trace = []\<rparr>))
   = (([[0, 0, 0], [500, 0, 0]],
       [[0, 0], [0, 0]],
       [[1 / 2, 3 / 10, 0], [1 / 2, 3 / 10, 0]],
       \<lparr>nodes = [(0, [0, 0, 0], [1 / 2, 3 / 10, 0]), (Suc 0, [500, 0, 0], [1 / 2, 3 / 10, 0])],
        edges = []\<rparr>),
      \<lparr>np_random = sconst 0,
       trace = [Print Banner, Print Start_training, Print (Generate_nodes 2),
                Print Average_degree, Print Connect_components]\<rparr>)
   \<and> edge_index_of [[0, 0], [0, 0]] 2 = []
   \<and> train_embeddings nan_lib 2 50 ()
        (print Banner
          \<lparr>np_random = 0 ## 0 ## 0 ## 4503599627370496 ## 0 ## 0 ## sconst 0, trace = []\<rparr>)
       = Some (Inr PyNone, (),
               \<lparr>np_random = sconst 0,
                trace = [Print Banner, Print Start_training, Print (Generate_nodes 2),
                         Print Average_degree, Print Connect_components,
                         Print Error_no_edges]\<rparr>)
   \<and> program nan_lib 2 50 (0 ## 0 ## 0 ## 4503599627370496 ## 0 ## 0 ## sconst 0) ()
       = Some \<lparr>np_random = sconst 0,
               trace = [Print Banner, Print Start_training, Print (Generate_nodes 2),
                        Print Average_degree, Print Connect_components, Print Error_no_edges,
                        Print (Error_during_training TypeError), Print Traceback]\<rparr>
   \<and> Print Training_failed
        \<notin> set [Print Banner, Print Start_training, Print (Generate_nodes 2),
                Print Average_degree, Print Connect_components, Print Error_no_edges,
                Print (Error_during_training TypeError), Print Traceback]
   \<and> (\<exists>x r' w'.
         train_embeddings nan_lib 3 2 ()
            \<lparr>np_random = 0 ## 0 ## 0 ## 4503599627370496 ## 0 ## 0 ## 1125899906842624 ## 0 ## 0
                           ## 0 ## 0 ## 0 ## 0 ## 0 ## 0 ## 0 ## 0 ## 0
                           ## 0 ## 1 ## 0 ## 1 ## 0 ## 1 ## 0 ## 1 ## sconst 0,
             trace = []\<rparr>
           = Some (Inr (Value x), r', w')
         \<and> fst x = Value ())"
proof -
  let ?g = "0 ## 0 ## 0 ## 4503599627370496 ## 0 ## 0 ## sconst 0"
  let ?w = "\<lparr>np_random = 0 ## 0 ## 0 ## 4503599627370496 ## 0 ## 0 ## 1125899906842624 ## 0 ## 0
                           ## 0 ## 0 ## 0 ## 0 ## 0 ## 0 ## 0 ## 0 ## 0
                           ## 0 ## 1 ## 0 ## 1 ## 0 ## 1 ## 0 ## 1 ## sconst 0,
             trace = []\<rparr>"
  note T = none_result_unpacking[where num_nodes = 2 and g = ?g and lib = nan_lib
      and num_epochs = 50 and r = "()" and n = 3 and ne = 2 and w = ?w]
  from T[THEN conjunct1, THEN mp, OF conjI, OF generate_2 edges_2]
  have t: "train_embeddings nan_lib 2 50 () (print Banner \<lparr>np_random = ?g, trace = []\<rparr>)
       = Some (Inr PyNone, (),
               \<lparr>np_random = sconst 0,
                trace = [Print Banner, Print Start_training, Print (Generate_nodes 2),
                         Print Average_degree, Print Connect_components,
                         Print Error_no_edges]\<rparr>)"
    and p: "program nan_lib 2 50 ?g ()
       = Some \<lparr>np_random = sconst 0,
               trace = [Print Banner, Print Start_training, Print (Generate_nodes 2),
                        Print Average_degree, Print Connect_components, Print Error_no_edges,
                        Print (Error_during_training TypeError), Print Traceback]\<rparr>"
    by (simp_all add: print_def)
  from T[THEN conjunct2, THEN conjunct2, THEN conjunct1, THEN mp, OF p]
  have nf: "Print Training_failed
        \<notin> set [Print Banner, Print Start_training, Print (Generate_nodes 2),
                Print Average_degree, Print Connect_components, Print Error_no_edges,
                Print (Error_during_training TypeError), Print Traceback]"
    by simp
  from T[THEN conjunct2, THEN conjunct1, THEN mp, OF nan_run] nan_run
  have v: "\<exists>x r' w'. train_embeddings nan_lib 3 2 () ?w = Some (Inr (Value x), r', w')
         \<and> fst x = Value ()"
    by simp
  from generate_2 edges_2 t p nf v show ?thesis by blast
qed

end
